theory Spec2Isabelle
  imports Complex_Main "HOL-Library.Sublist" "HOL-Library.AList"
begin

section \<open>Python values shared by both scripts\<close>

text \<open>
  Exceptions are values: a function that can raise returns \<open>error + 'a\<close>, with \<open>Inl\<close>
  for the exception. \<open>KeyError\<close> carries the missing key and \<open>AttributeError\<close> the
  missing attribute name, as the Python exceptions do.
\<close>

datatype error =
    KeyError string
  | AttributeError string
  | ValueError string
  | NameError string
  | NotFoundError string

text \<open>
  The metric objects the scripts put into their dictionaries. Only the class of the
  object and the constructor argument \<open>num_bins\<close> are kept; the accumulated value is
  the framework's.
\<close>

datatype metric =
    Mean
  | SparseCategoricalAccuracy
  | BinaryAccuracy
  | AUC
  | ExpectedCalibrationError int

text \<open>\<open>d[k]\<close> on a Python dictionary: the value, or \<open>KeyError(k)\<close>.\<close>

definition getitem :: "(string \<rightharpoonup> 'v) \<Rightarrow> string \<Rightarrow> error + 'v" where
  "getitem d k = (case d k of None \<Rightarrow> Inl (KeyError k) | Some v \<Rightarrow> Inr v)"

text \<open>
  The arguments of one call are evaluated from left to right; the first lookup that
  fails raises and the later ones are not reached.
\<close>

fun getitems :: "(string \<rightharpoonup> 'v) \<Rightarrow> string list \<Rightarrow> error + 'v list" where
  "getitems d [] = Inr []"
| "getitems d (k # ks) =
     (case getitem d k of
        Inl e \<Rightarrow> Inl e
      | Inr v \<Rightarrow> (case getitems d ks of Inl e \<Rightarrow> Inl e | Inr vs \<Rightarrow> Inr (v # vs)))"

section \<open>Diabetic retinopathy utilities (\<open>diabetic_retinopathy_detection/utils.py\<close>)\<close>

subsection \<open>\<open>get_diabetic_retinopathy_base_metrics\<close>\<close>

text \<open>
  A dictionary literal with five entries, then \<open>metrics.update\<close> with the two AUC
  entries when \<open>use_tpu\<close> holds and with the two ECE entries otherwise.
  \<open>d.update(e)\<close> is map addition \<open>d ++ e\<close>.
\<close>

definition get_diabetic_retinopathy_base_metrics :: "bool \<Rightarrow> int \<Rightarrow> (string \<rightharpoonup> metric)" where
  "get_diabetic_retinopathy_base_metrics use_tpu num_bins =
     (let metrics = [''train/negative_log_likelihood'' \<mapsto> Mean,
                     ''train/accuracy'' \<mapsto> BinaryAccuracy,
                     ''train/loss'' \<mapsto> Mean,
                     ''test/negative_log_likelihood'' \<mapsto> Mean,
                     ''test/accuracy'' \<mapsto> BinaryAccuracy]
      in if use_tpu
         then metrics ++ [''train/auc'' \<mapsto> AUC, ''test/auc'' \<mapsto> AUC]
         else metrics ++ [''train/ece'' \<mapsto> ExpectedCalibrationError num_bins,
                          ''test/ece'' \<mapsto> ExpectedCalibrationError num_bins])"

subsection \<open>\<open>log_epoch_metrics\<close>\<close>

text \<open>
  Two calls of \<open>logging.info\<close>, each with a format string and the results of the metrics
  it names. A log record is the format string with the metric objects read for it.
\<close>

type_synonym log_record = "string \<times> metric list"

definition logging_info :: "string \<Rightarrow> (string \<rightharpoonup> metric) \<Rightarrow> string list \<Rightarrow> error + log_record" where
  "logging_info fmt metrics ks =
     (case getitems metrics ks of Inl e \<Rightarrow> Inl e | Inr ms \<Rightarrow> Inr (fmt, ms))"

definition log_epoch_metrics :: "(string \<rightharpoonup> metric) \<Rightarrow> bool \<Rightarrow> error + log_record list" where
  "log_epoch_metrics metrics use_tpu =
     (if use_tpu then
        (case logging_info ''Train Loss (NLL+L2): %.4f, Accuracy: %.2f%%, AUC: %.2f%%'' metrics
                [''train/loss'', ''train/accuracy'', ''train/auc''] of
           Inl e \<Rightarrow> Inl e
         | Inr r1 \<Rightarrow>
             (case logging_info ''Test NLL: %.4f, Accuracy: %.2f%%, AUC: %.2f%%'' metrics
                     [''test/negative_log_likelihood'', ''test/accuracy'', ''test/auc''] of
                Inl e \<Rightarrow> Inl e
              | Inr r2 \<Rightarrow> Inr [r1, r2]))
      else
        (case logging_info
                ''Train Loss (NLL+L2): %.4f, Accuracy: %.2f%%, AUC: %.2f%%, ECE: %.2f%%'' metrics
                [''train/loss'', ''train/accuracy'', ''train/auc'', ''train/ece''] of
           Inl e \<Rightarrow> Inl e
         | Inr r1 \<Rightarrow>
             (case logging_info
                     ''Test NLL: %.4f, Accuracy: %.2f%%, AUC: %.2f%%, ECE: %.2f%%'' metrics
                     [''test/negative_log_likelihood'', ''test/accuracy'', ''test/auc'',
                      ''test/ece''] of
                Inl e \<Rightarrow> Inl e
              | Inr r2 \<Rightarrow> Inr [r1, r2])))"

subsection \<open>\<open>parse_keras_models\<close>\<close>

text \<open>
  The function reads the file system through \<open>io.gfile.listdir\<close> and
  \<open>tf.io.gfile.isdir\<close> only. The file system is a parameter: what \<open>listdir\<close> returns for
  a path (the names, or the framework's error when the path cannot be listed) and which
  paths \<open>isdir\<close> accepts. The function returns its result together with the file system
  it leaves behind.
\<close>

record filesystem =
  listdir :: "string \<Rightarrow> error + string list"
  isdir :: "string \<Rightarrow> bool"

text \<open>
  \<open>os.path.join(a, b)\<close> of \<open>posixpath\<close>: an absolute \<open>b\<close> replaces \<open>a\<close>; an empty \<open>a\<close> or
  one that ends with the separator takes \<open>b\<close> directly; otherwise a separator is put
  between them.
\<close>

definition os_path_join :: "string \<Rightarrow> string \<Rightarrow> string" where
  "os_path_join a b =
     (if take 1 b = ''/'' then b
      else if a = [] \<or> last a = CHR ''/'' then a @ b
      else a @ ''/'' @ b)"

text \<open>Python's \<open>needle in hay\<close> on strings: \<open>needle\<close> starts at some position of \<open>hay\<close>.\<close>

fun str_contains :: "string \<Rightarrow> string \<Rightarrow> bool" where
  "str_contains needle [] = (needle = [])"
| "str_contains needle (c # cs) =
     (take (length needle) (c # cs) = needle \<or> str_contains needle cs)"

definition is_keras_model_dir :: "string \<Rightarrow> bool" where
  "is_keras_model_dir dir_name = str_contains ''keras_model'' dir_name"

text \<open>The \<open>for\<close> loop over the listing, with the list \<open>paths\<close> it appends to.\<close>

fun parse_keras_models_loop ::
  "filesystem \<Rightarrow> string \<Rightarrow> string list \<Rightarrow> string list \<Rightarrow> string list" where
  "parse_keras_models_loop fs checkpoint_dir [] paths = paths"
| "parse_keras_models_loop fs checkpoint_dir (dir_name # rest) paths =
     (let dir_path = os_path_join checkpoint_dir dir_name
      in if isdir fs dir_path \<and> is_keras_model_dir dir_name
         then parse_keras_models_loop fs checkpoint_dir rest (paths @ [dir_path])
         else parse_keras_models_loop fs checkpoint_dir rest paths)"

definition parse_keras_models ::
  "filesystem \<Rightarrow> string \<Rightarrow> (error + string list) \<times> filesystem" where
  "parse_keras_models fs checkpoint_dir =
     (case listdir fs checkpoint_dir of
        Inl e \<Rightarrow> (Inl e, fs)
      | Inr names \<Rightarrow> (Inr (parse_keras_models_loop fs checkpoint_dir names []), fs))"

text \<open>A small directory tree for running \<open>parse_keras_models\<close>.\<close>

definition example_fs :: filesystem where
  "example_fs =
     \<lparr>listdir = (\<lambda>p. if p = ''ckpt''
                       then Inr [''keras_model_0'', ''notes'', ''keras_model.txt'',
                                 ''old_keras_model'']
                       else Inl (NotFoundError p)),
      isdir = (\<lambda>p. p \<in> {''ckpt'', ''ckpt/keras_model_0'', ''ckpt/notes'',
                           ''ckpt/old_keras_model''})\<rparr>"

section \<open>CondConv training driver (\<open>cifar/condconv.py\<close>): the loop of \<open>main\<close>\<close>

subsection \<open>Python helpers\<close>

text \<open>\<open>range(a, b)\<close> over Python integers; \<open>range(n)\<close> is \<open>py_range 0 n\<close>.\<close>

definition py_range :: "int \<Rightarrow> int \<Rightarrow> int list" where
  "py_range a b = [a..b - 1]"

text \<open>Decimal digits of an integer, as \<open>str.format\<close> prints it.\<close>

fun str_nat :: "nat \<Rightarrow> string" where
  "str_nat n =
     (if n < 10 then [''0123456789'' ! n]
      else str_nat (n div 10) @ [''0123456789'' ! (n mod 10)])"

declare str_nat.simps [simp del]

definition str_int :: "int \<Rightarrow> string" where
  "str_int i = (if i < 0 then CHR ''-'' # str_nat (nat (- i)) else str_nat (nat i))"

text \<open>\<open>'{0}_{1}'.format(corruption, intensity)\<close>.\<close>

definition format_dataset_name :: "string \<Rightarrow> int \<Rightarrow> string" where
  "format_dataset_name corruption intensity = corruption @ ''_'' @ str_int intensity"

text \<open>
  A \<open>for\<close> loop whose body can raise: the state is threaded through the iterations and
  the first exception ends the loop.
\<close>

fun for_each :: "'a list \<Rightarrow> ('a \<Rightarrow> 's \<Rightarrow> error + 's) \<Rightarrow> 's \<Rightarrow> error + 's" where
  "for_each [] body s = Inr s"
| "for_each (x # xs) body s =
     (case body x s of Inl e \<Rightarrow> Inl e | Inr s' \<Rightarrow> for_each xs body s')"

subsection \<open>What \<open>main\<close> holds when the loop starts\<close>

text \<open>
  The two interval flags and \<open>train_epochs\<close>; the locals \<open>steps_per_epoch\<close>,
  \<open>steps_per_eval\<close> and \<open>initial_epoch\<close>; \<open>corruption_types\<close> and \<open>max_intensity\<close>, which
  \<open>utils.load_corrupted_test_info\<close> returns (that module is not part of the sources, so
  both are parameters). Whether a call of the compiled \<open>train_step\<close> or \<open>test_step\<close>
  raises is a parameter too, indexed by the epoch and step of the call (and the dataset
  name for \<open>test_step\<close>): \<open>None\<close> when the call returns.
\<close>

record main_env =
  FLAGS_corruptions_interval :: int
  FLAGS_checkpoint_interval :: int
  FLAGS_train_epochs :: int
  steps_per_epoch :: int
  steps_per_eval :: int
  initial_epoch :: int
  corruption_types :: "string list"
  max_intensity :: int
  train_step_raises :: "int \<Rightarrow> int \<Rightarrow> error option"
  test_step_raises :: "string \<Rightarrow> int \<Rightarrow> int \<Rightarrow> error option"

datatype dataset = Clean_test | Corrupted_test string int

text \<open>
  What a run does, in order: the calls of the two step functions (with epoch and step),
  the aggregation of the corrupted metrics, the writing of the summaries and the reset of
  the metrics of an epoch, and the two places that call \<open>checkpoint.save\<close>.
\<close>

datatype event =
    Train_step int int
  | Test_step string int int
  | Aggregate_corrupt_metrics int
  | Write_summaries int
  | Reset_metrics int
  | Save_checkpoint int
  | Save_last_checkpoint

text \<open>
  The dictionary \<open>test_datasets\<close>: the entry \<open>clean\<close>, then, when
  \<open>corruptions_interval > 0\<close>, one entry per corruption and intensity, the corruption in
  the outer loop. A Python dictionary keeps insertion order and an assignment to a key
  it already holds keeps the key's place: \<open>AList.update\<close>.
\<close>

definition test_datasets :: "main_env \<Rightarrow> (string \<times> dataset) list" where
  "test_datasets env =
     (let test_datasets = [(''clean'', Clean_test)]
      in if FLAGS_corruptions_interval env > 0 then
           fold (\<lambda>corruption td.
                   fold (\<lambda>intensity td.
                           AList.update (format_dataset_name corruption intensity)
                             (Corrupted_test corruption intensity) td)
                     (py_range 1 (max_intensity env + 1)) td)
             (corruption_types env) test_datasets
         else test_datasets)"

subsection \<open>The epoch loop\<close>

definition train_step :: "main_env \<Rightarrow> int \<Rightarrow> int \<Rightarrow> event list \<Rightarrow> error + event list" where
  "train_step env epoch step tr =
     (case train_step_raises env epoch step of
        Some e \<Rightarrow> Inl e
      | None \<Rightarrow> Inr (tr @ [Train_step epoch step]))"

definition test_step ::
  "main_env \<Rightarrow> string \<Rightarrow> int \<Rightarrow> int \<Rightarrow> event list \<Rightarrow> error + event list" where
  "test_step env dataset_name epoch step tr =
     (case test_step_raises env dataset_name epoch step of
        Some e \<Rightarrow> Inl e
      | None \<Rightarrow> Inr (tr @ [Test_step dataset_name epoch step]))"

text \<open>
  The body of \<open>for epoch in range(initial_epoch, FLAGS.train_epochs)\<close>: the training
  steps; \<open>datasets_to_evaluate\<close> and the evaluation steps of each of its datasets; the
  aggregation of the corrupted metrics under the same condition; summaries and reset;
  the periodic checkpoint. Python's \<open>%\<close> with a positive right operand is \<open>mod\<close>, and
  \<open>and\<close> does not evaluate it when the interval is not positive.
\<close>

definition run_epoch :: "main_env \<Rightarrow> int \<Rightarrow> event list \<Rightarrow> error + event list" where
  "run_epoch env epoch tr =
     (case for_each (py_range 0 (steps_per_epoch env)) (train_step env epoch) tr of
        Inl e \<Rightarrow> Inl e
      | Inr tr1 \<Rightarrow>
          (case getitem (map_of (test_datasets env)) ''clean'' of
             Inl e \<Rightarrow> Inl e
           | Inr clean \<Rightarrow>
               (let datasets_to_evaluate =
                      (if FLAGS_corruptions_interval env > 0 \<and>
                          (epoch + 1) mod FLAGS_corruptions_interval env = 0
                       then test_datasets env else [(''clean'', clean)])
                in case for_each datasets_to_evaluate
                          (\<lambda>(dataset_name, test_dataset).
                             for_each (py_range 0 (steps_per_eval env))
                               (test_step env dataset_name epoch)) tr1 of
                     Inl e \<Rightarrow> Inl e
                   | Inr tr2 \<Rightarrow>
                       (let tr3 = (if FLAGS_corruptions_interval env > 0 \<and>
                                      (epoch + 1) mod FLAGS_corruptions_interval env = 0
                                   then tr2 @ [Aggregate_corrupt_metrics epoch] else tr2);
                            tr4 = tr3 @ [Write_summaries epoch, Reset_metrics epoch]
                        in if FLAGS_checkpoint_interval env > 0 \<and>
                              (epoch + 1) mod FLAGS_checkpoint_interval env = 0
                           then Inr (tr4 @ [Save_checkpoint epoch]) else Inr tr4))))"

text \<open>The loop over the epochs, then the save of the last checkpoint.\<close>

definition main_loop :: "main_env \<Rightarrow> error + event list" where
  "main_loop env =
     (case for_each (py_range (initial_epoch env) (FLAGS_train_epochs env)) (run_epoch env) [] of
        Inl e \<Rightarrow> Inl e
      | Inr tr \<Rightarrow> Inr (tr @ [Save_last_checkpoint]))"

subsection \<open>Vocabulary for stating the schedule\<close>

text \<open>The names of the corrupted test sets, in the order of the dictionary.\<close>

definition corrupted_names :: "main_env \<Rightarrow> string list" where
  "corrupted_names env = filter (\<lambda>n. n \<noteq> ''clean'') (map fst (test_datasets env))"

text \<open>Evaluating the datasets \<open>names\<close> in an epoch: \<open>steps_per_eval\<close> steps on each.\<close>

definition eval_events :: "main_env \<Rightarrow> int \<Rightarrow> string list \<Rightarrow> event list" where
  "eval_events env epoch names =
     concat (map (\<lambda>d. map (Test_step d epoch) (py_range 0 (steps_per_eval env))) names)"

definition is_step :: "event \<Rightarrow> bool" where
  "is_step ev = (case ev of Train_step _ _ \<Rightarrow> True | Test_step _ _ _ \<Rightarrow> True | _ \<Rightarrow> False)"

text \<open>The events of an epoch whose steps all return, stated with divisibility.\<close>

definition epoch_events :: "main_env \<Rightarrow> int \<Rightarrow> event list" where
  "epoch_events env epoch =
     map (Train_step epoch) (py_range 0 (steps_per_epoch env)) @
     eval_events env epoch
       (if FLAGS_corruptions_interval env > 0 \<and> FLAGS_corruptions_interval env dvd epoch + 1
        then ''clean'' # corrupted_names env else [''clean'']) @
     (if FLAGS_corruptions_interval env > 0 \<and> FLAGS_corruptions_interval env dvd epoch + 1
      then [Aggregate_corrupt_metrics epoch] else []) @
     [Write_summaries epoch, Reset_metrics epoch] @
     (if FLAGS_checkpoint_interval env > 0 \<and> FLAGS_checkpoint_interval env dvd epoch + 1
      then [Save_checkpoint epoch] else [])"

text \<open>The entry \<open>clean\<close> is the first of the dictionary and no other entry has its key.\<close>

definition clean_first :: "(string \<times> dataset) list \<Rightarrow> bool" where
  "clean_first td \<longleftrightarrow>
     (\<exists>rest. td = (''clean'', Clean_test) # rest \<and> ''clean'' \<notin> fst ` set rest)"

text \<open>
  Two runs of two epochs with two training steps and one evaluation step each, one
  corruption at one intensity, both intervals 2, and no step raising; the second run
  has \<open>checkpoint_interval = -1\<close>.
\<close>

definition example_env :: main_env where
  "example_env =
     \<lparr>FLAGS_corruptions_interval = 2, FLAGS_checkpoint_interval = 2, FLAGS_train_epochs = 2,
      steps_per_epoch = 2, steps_per_eval = 1, initial_epoch = 0,
      corruption_types = [''gaussian_noise''], max_intensity = 1,
      train_step_raises = (\<lambda>epoch step. None),
      test_step_raises = (\<lambda>dataset_name epoch step. None)\<rparr>"

definition no_checkpoint_env :: main_env where
  "no_checkpoint_env = example_env\<lparr>FLAGS_checkpoint_interval := - 1\<rparr>"

section \<open>CondConv training driver: the step functions\<close>

subsection \<open>Flags the step functions read\<close>

text \<open>The six values of the flag \<open>loss\<close>, in the order of its \<open>enum_values\<close>.\<close>

datatype loss = Gibbs_ce | Unweighted_gibbs_ce | Moe | Unweighted_moe | Poe | Unweighted_poe

text \<open>The flags read inside \<open>train_step\<close>, \<open>test_step\<close> and their helpers.\<close>

record step_flags =
  FLAGS_num_experts :: int
  FLAGS_use_cond_dense :: bool
  FLAGS_reduce_dense_outputs :: bool
  FLAGS_num_bins :: int
  FLAGS_loss :: loss

text \<open>The default values of these flags.\<close>

definition default_flags :: step_flags where
  "default_flags =
     \<lparr>FLAGS_num_experts = 4, FLAGS_use_cond_dense = True, FLAGS_reduce_dense_outputs = False,
      FLAGS_num_bins = 15, FLAGS_loss = Gibbs_ce\<rparr>"

subsection \<open>The metric dictionaries built before training\<close>

text \<open>
  \<open>metrics\<close>: the seven base entries; on the CondDense path (\<open>reduce_dense_outputs\<close>
  false and \<open>use_cond_dense\<close> true) eleven more and two per expert; and
  \<open>test/ms_per_example\<close>, added just before the loop.
\<close>

definition metrics :: "step_flags \<Rightarrow> (string \<rightharpoonup> metric)" where
  "metrics fl =
     (let metrics =
            [''train/negative_log_likelihood'' \<mapsto> Mean,
             ''train/accuracy'' \<mapsto> SparseCategoricalAccuracy,
             ''train/loss'' \<mapsto> Mean,
             ''train/ece'' \<mapsto> ExpectedCalibrationError (FLAGS_num_bins fl),
             ''test/negative_log_likelihood'' \<mapsto> Mean,
             ''test/accuracy'' \<mapsto> SparseCategoricalAccuracy,
             ''test/ece'' \<mapsto> ExpectedCalibrationError (FLAGS_num_bins fl)];
          metrics =
            (if \<not> FLAGS_reduce_dense_outputs fl \<and> FLAGS_use_cond_dense fl then
               fold (\<lambda>idx m.
                       m(''test/dense_routing_weight_'' @ str_int idx \<mapsto> Mean,
                         ''test/dense_routing_weight_normalized_'' @ str_int idx \<mapsto> Mean))
                 (py_range 0 (FLAGS_num_experts fl))
                 (metrics ++
                    [''test/nll_poe'' \<mapsto> Mean,
                     ''test/nll_moe'' \<mapsto> Mean,
                     ''test/nll_unweighted_poe'' \<mapsto> Mean,
                     ''test/nll_unweighted_moe'' \<mapsto> Mean,
                     ''test/unweighted_gibbs_ce'' \<mapsto> Mean,
                     ''test/ece_unweighted_moe'' \<mapsto> ExpectedCalibrationError (FLAGS_num_bins fl),
                     ''test/accuracy_unweighted_moe'' \<mapsto> SparseCategoricalAccuracy,
                     ''test/ece_poe'' \<mapsto> ExpectedCalibrationError (FLAGS_num_bins fl),
                     ''test/accuracy_poe'' \<mapsto> SparseCategoricalAccuracy,
                     ''test/ece_unweighted_poe'' \<mapsto> ExpectedCalibrationError (FLAGS_num_bins fl),
                     ''test/accuracy_unweighted_poe'' \<mapsto> SparseCategoricalAccuracy])
             else metrics)
      in metrics ++ [''test/ms_per_example'' \<mapsto> Mean])"

text \<open>
  \<open>corrupt_metrics\<close> is assigned only when \<open>corruptions_interval > 0\<close> (\<open>None\<close>: the name
  is unbound). It gets six entries per intensity and corruption, the intensity in the
  outer loop; the keys of the three weighted ones end in \<open>weighted_moe_\<close> followed by the
  dataset name.
\<close>

definition corrupt_metrics :: "main_env \<Rightarrow> step_flags \<Rightarrow> (string \<rightharpoonup> metric) option" where
  "corrupt_metrics env fl =
     (if FLAGS_corruptions_interval env > 0 then
        Some (fold (\<lambda>intensity cm.
                fold (\<lambda>corruption cm.
                        (let dataset_name = format_dataset_name corruption intensity
                         in cm(''test/nll_'' @ dataset_name \<mapsto> Mean,
                               ''test/accuracy_'' @ dataset_name \<mapsto> SparseCategoricalAccuracy,
                               ''test/ece_'' @ dataset_name \<mapsto>
                                 ExpectedCalibrationError (FLAGS_num_bins fl),
                               ''test/nll_weighted_moe_'' @ dataset_name \<mapsto> Mean,
                               ''test/accuracy_weighted_moe_'' @ dataset_name \<mapsto>
                                 SparseCategoricalAccuracy,
                               ''test/ece_weighted_moe_'' @ dataset_name \<mapsto>
                                 ExpectedCalibrationError (FLAGS_num_bins fl))))
                  (corruption_types env) cm)
              (py_range 1 (max_intensity env + 1)) Map.empty)
      else None)"

subsection \<open>The metric updates of \<open>test_step\<close>\<close>

text \<open>
  The part of \<open>step_fn\<close> in \<open>test_step\<close> after the results are computed: the dictionary
  lookups whose objects receive \<open>update_state\<close>, in the order of the source, with the key
  of each as the source formats it. The result lists the metric objects updated; a
  lookup that fails raises \<open>KeyError\<close> and ends the step. The fourth and the sixth
  format string of the CondDense branch for a corrupted dataset are
  \<open>'test/nll_weighted_moe{}'\<close> and \<open>'test/ece_weighted_moe{}'\<close>.
\<close>

definition test_step_update_metrics :: "main_env \<Rightarrow> step_flags \<Rightarrow> string \<Rightarrow> error + metric list" where
  "test_step_update_metrics env fl dataset_name =
     (if dataset_name = ''clean'' then
        (if \<not> FLAGS_reduce_dense_outputs fl \<and> FLAGS_use_cond_dense fl then
           getitems (metrics fl)
             ([''test/nll_poe'', ''test/nll_moe'', ''test/nll_unweighted_poe'',
               ''test/nll_unweighted_moe'', ''test/unweighted_gibbs_ce'',
               ''test/negative_log_likelihood'', ''test/ece'', ''test/accuracy'',
               ''test/ece_unweighted_moe'', ''test/accuracy_unweighted_moe'',
               ''test/ece_poe'', ''test/accuracy_poe'',
               ''test/ece_unweighted_poe'', ''test/accuracy_unweighted_poe''] @
              concat (map (\<lambda>idx. [''test/dense_routing_weight_'' @ str_int idx,
                                   ''test/dense_routing_weight_normalized_'' @ str_int idx])
                        (py_range 0 (FLAGS_num_experts fl))))
         else
           getitems (metrics fl)
             [''test/negative_log_likelihood'', ''test/accuracy'', ''test/ece''])
      else
        (case corrupt_metrics env fl of
           None \<Rightarrow> Inl (NameError ''corrupt_metrics'')
         | Some cm \<Rightarrow>
             (if \<not> FLAGS_reduce_dense_outputs fl \<and> FLAGS_use_cond_dense fl then
                getitems cm
                  [''test/nll_'' @ dataset_name,
                   ''test/accuracy_'' @ dataset_name,
                   ''test/ece_'' @ dataset_name,
                   ''test/nll_weighted_moe'' @ dataset_name,
                   ''test/accuracy_weighted_moe_'' @ dataset_name,
                   ''test/ece_weighted_moe'' @ dataset_name]
              else
                getitems cm
                  [''test/nll_'' @ dataset_name,
                   ''test/accuracy_'' @ dataset_name,
                   ''test/ece_'' @ dataset_name])))"


subsection \<open>The loop with the metric updates of \<open>test_step\<close>\<close>

text \<open>
  The environment of the loop in which a call of \<open>test_step\<close> raises exactly when its
  metric updates do, and with what they raise.
\<close>

definition with_test_step_metrics :: "step_flags \<Rightarrow> main_env \<Rightarrow> main_env" where
  "with_test_step_metrics fl env =
     env\<lparr>test_step_raises :=
           (\<lambda>dataset_name epoch step.
              case test_step_update_metrics env fl dataset_name of
                Inl e \<Rightarrow> Some e
              | Inr ms \<Rightarrow> None)\<rparr>"

text \<open>
  The example run with the default flags (the CondDense path), and the same run with
  \<open>reduce_dense_outputs\<close> set.
\<close>

definition cond_dense_run :: main_env where
  "cond_dense_run = with_test_step_metrics default_flags example_env"

definition reduce_dense_run :: main_env where
  "reduce_dense_run =
     with_test_step_metrics (default_flags\<lparr>FLAGS_reduce_dense_outputs := True\<rparr>) example_env"

subsection \<open>Tensors and the framework operations on them\<close>

text \<open>
  A tensor is the nested list of its entries, outermost axis first; the float entries
  are read as real numbers. Logits have shape \<open>[batch_size, num_experts, num_classes]\<close>
  and routing weights \<open>[batch_size, num_experts]\<close>, as the comments of the source say;
  labels are class indices. The operations below give the framework's result on tensors
  of these shapes; on other shapes the framework broadcasts or rejects, which is not
  modelled.
\<close>

type_synonym vec = "real list"

type_synonym mat = "real list list"

type_synonym tensor3 = "real list list list"

text \<open>\<open>tf.nn.softmax\<close> normalises the exponentials along the last axis.\<close>

definition softmax_vec :: "vec \<Rightarrow> vec" where
  "softmax_vec v = map (\<lambda>x. exp x / sum_list (map exp v)) v"

definition tf_nn_softmax :: "tensor3 \<Rightarrow> tensor3" where
  "tf_nn_softmax t = map (map softmax_vec) t"

definition tf_nn_softmax_2d :: "mat \<Rightarrow> mat" where
  "tf_nn_softmax_2d m = map softmax_vec m"

text \<open>
  \<open>tf.expand_dims(x, axis=-1)\<close>, and the product of a \<open>[B, E, 1]\<close> tensor with a
  \<open>[B, E, C]\<close> tensor, which broadcasts along the last axis.
\<close>

definition tf_expand_dims_last :: "mat \<Rightarrow> tensor3" where
  "tf_expand_dims_last m = map (map (\<lambda>w. [w])) m"

definition broadcast_mul :: "tensor3 \<Rightarrow> tensor3 \<Rightarrow> tensor3" where
  "broadcast_mul a b =
     map2 (map2 (\<lambda>ws zs. case ws of [w] \<Rightarrow> map ((*) w) zs | _ \<Rightarrow> map2 (*) ws zs)) a b"

text \<open>
  \<open>tf.math.reduce_mean\<close> and \<open>tf.math.reduce_sum\<close> along axis 1 of a rank-3 tensor (one
  column of the \<open>[E, C]\<close> slice per class), over all entries of a rank-2 or rank-1
  tensor, and \<open>reduce_sum\<close> along axis 1 of a rank-2 tensor; the elementwise product of
  two rank-2 tensors.
\<close>

definition reduce_mean_axis1 :: "tensor3 \<Rightarrow> mat" where
  "reduce_mean_axis1 t =
     map (\<lambda>row. map (\<lambda>col. sum_list col / real (length row)) (transpose row)) t"

definition reduce_sum_axis1 :: "tensor3 \<Rightarrow> mat" where
  "reduce_sum_axis1 t = map (\<lambda>row. map sum_list (transpose row)) t"

definition reduce_mean_2d :: "mat \<Rightarrow> real" where
  "reduce_mean_2d m = sum_list (concat m) / real (length (concat m))"

definition reduce_mean_1d :: "vec \<Rightarrow> real" where
  "reduce_mean_1d v = sum_list v / real (length v)"

definition reduce_sum_2d_axis1 :: "mat \<Rightarrow> vec" where
  "reduce_sum_2d_axis1 m = map sum_list m"

definition mul_2d :: "mat \<Rightarrow> mat \<Rightarrow> mat" where
  "mul_2d a b = map2 (map2 (*)) a b"

text \<open>
  \<open>tf.keras.losses.sparse_categorical_crossentropy\<close> for one example. With
  \<open>from_logits=True\<close> it is minus the logarithm of the softmax at the label. With
  \<open>from_logits=False\<close> Keras clips the probabilities to \<open>[epsilon, 1 - epsilon]\<close>,
  \<open>epsilon = 1e-7\<close>, renormalises them and takes minus the logarithm at the label.
\<close>

definition cross_entropy_from_logits :: "nat \<Rightarrow> vec \<Rightarrow> real" where
  "cross_entropy_from_logits label z = - ln (softmax_vec z ! label)"

definition keras_epsilon :: real where
  "keras_epsilon = 1 / 10 ^ 7"

definition cross_entropy_from_probs :: "nat \<Rightarrow> vec \<Rightarrow> real" where
  "cross_entropy_from_probs label p =
     (let q = map (\<lambda>x. max keras_epsilon (min (1 - keras_epsilon) x)) p
      in - ln (q ! label / sum_list q))"

definition sparse_categorical_crossentropy_logits_2d :: "nat list list \<Rightarrow> tensor3 \<Rightarrow> mat" where
  "sparse_categorical_crossentropy_logits_2d labels logits =
     map2 (map2 cross_entropy_from_logits) labels logits"

definition sparse_categorical_crossentropy_logits :: "nat list \<Rightarrow> mat \<Rightarrow> vec" where
  "sparse_categorical_crossentropy_logits labels logits =
     map2 cross_entropy_from_logits labels logits"

definition sparse_categorical_crossentropy_probs :: "nat list \<Rightarrow> mat \<Rightarrow> vec" where
  "sparse_categorical_crossentropy_probs labels probs =
     map2 cross_entropy_from_probs labels probs"

subsection \<open>\<open>_process_3d_logits\<close>\<close>

text \<open>The dictionary the function returns has seven fixed keys: a record.\<close>

record processing_results =
  weighted_logits :: mat
  unweighted_logits :: mat
  unweighted_probs :: mat
  weighted_probs :: mat
  neg_log_likelihoods :: mat
  unweighted_gibbs_ce :: real
  weighted_gibbs_ce :: real

definition process_3d_logits :: "step_flags \<Rightarrow> tensor3 \<Rightarrow> mat \<Rightarrow> nat list \<Rightarrow> processing_results" where
  "process_3d_logits fl logits routing_weights labels =
     (let routing_weights_3d = tf_expand_dims_last routing_weights;
          weighted_logits = reduce_mean_axis1 (broadcast_mul routing_weights_3d logits);
          unweighted_logits = reduce_mean_axis1 logits;
          probs = tf_nn_softmax logits;
          unweighted_probs = reduce_mean_axis1 probs;
          weighted_probs = reduce_sum_axis1 (broadcast_mul routing_weights_3d probs);
          labels_broadcasted = map (replicate (nat (FLAGS_num_experts fl))) labels;
          neg_log_likelihoods =
            sparse_categorical_crossentropy_logits_2d labels_broadcasted logits;
          unweighted_gibbs_ce = reduce_mean_2d neg_log_likelihoods;
          weighted_gibbs_ce =
            reduce_mean_1d (reduce_sum_2d_axis1 (mul_2d routing_weights neg_log_likelihoods))
      in \<lparr>weighted_logits = weighted_logits,
          unweighted_logits = unweighted_logits,
          unweighted_probs = unweighted_probs,
          weighted_probs = weighted_probs,
          neg_log_likelihoods = neg_log_likelihoods,
          unweighted_gibbs_ce = unweighted_gibbs_ce,
          weighted_gibbs_ce = weighted_gibbs_ce\<rparr>)"

subsection \<open>\<open>_process_3d_logits_train\<close>\<close>

text \<open>
  The branches for \<open>poe\<close> and \<open>unweighted_poe\<close> call \<open>tf.softmax\<close>, an attribute of the
  top-level module, where every other place of the script calls \<open>tf.nn.softmax\<close>. What the
  top-level module provides under that name is a parameter. In TensorFlow 2, which the
  script needs for \<open>tf.distribute.TPUStrategy\<close>, the top-level module has no attribute
  \<open>softmax\<close>: the lookup raises \<open>AttributeError\<close>.
\<close>

record tf_module =
  tf_softmax :: "(mat \<Rightarrow> mat) option"

definition tensorflow2 :: tf_module where
  "tensorflow2 = \<lparr>tf_softmax = None\<rparr>"

definition getattr_softmax :: "tf_module \<Rightarrow> error + (mat \<Rightarrow> mat)" where
  "getattr_softmax tf = (case tf_softmax tf of None \<Rightarrow> Inl (AttributeError ''softmax'') | Some f \<Rightarrow> Inr f)"

text \<open>
  The \<open>if\<close>/\<open>elif\<close> chain over \<open>FLAGS.loss\<close>. In the two \<open>poe\<close> branches the first
  statement looks \<open>tf.softmax\<close> up.
\<close>

definition process_3d_logits_train ::
  "tf_module \<Rightarrow> step_flags \<Rightarrow> tensor3 \<Rightarrow> mat \<Rightarrow> nat list \<Rightarrow> error + mat \<times> real" where
  "process_3d_logits_train tf fl logits routing_weights labels =
     (let processing_results = process_3d_logits fl logits routing_weights labels
      in case FLAGS_loss fl of
           Gibbs_ce \<Rightarrow>
             Inr (weighted_probs processing_results, weighted_gibbs_ce processing_results)
         | Unweighted_gibbs_ce \<Rightarrow>
             Inr (unweighted_probs processing_results, unweighted_gibbs_ce processing_results)
         | Moe \<Rightarrow>
             (let probs = weighted_probs processing_results
              in Inr (probs, reduce_mean_1d (sparse_categorical_crossentropy_probs labels probs)))
         | Unweighted_moe \<Rightarrow>
             (let probs = unweighted_probs processing_results
              in Inr (probs, reduce_mean_1d (sparse_categorical_crossentropy_probs labels probs)))
         | Poe \<Rightarrow>
             (case getattr_softmax tf of
                Inl e \<Rightarrow> Inl e
              | Inr softmax \<Rightarrow>
                  Inr (softmax (weighted_logits processing_results),
                       reduce_mean_1d (sparse_categorical_crossentropy_logits labels
                         (weighted_logits processing_results))))
         | Unweighted_poe \<Rightarrow>
             (case getattr_softmax tf of
                Inl e \<Rightarrow> Inl e
              | Inr softmax \<Rightarrow>
                  Inr (softmax (unweighted_logits processing_results),
                       reduce_mean_1d (sparse_categorical_crossentropy_logits labels
                         (unweighted_logits processing_results)))))"

subsection \<open>Vocabulary for stating the aggregation\<close>

text \<open>Shapes of rank-2 and rank-3 tensors, and the inputs the claims are about.\<close>

definition shape2 :: "nat \<Rightarrow> nat \<Rightarrow> 'a list list \<Rightarrow> bool" where
  "shape2 B E m \<longleftrightarrow> length m = B \<and> (\<forall>row \<in> set m. length row = E)"

definition shape3 :: "nat \<Rightarrow> nat \<Rightarrow> nat \<Rightarrow> 'a list list list \<Rightarrow> bool" where
  "shape3 B E C t \<longleftrightarrow> length t = B \<and> (\<forall>row \<in> set t. shape2 E C row)"

definition well_shaped :: "nat \<Rightarrow> nat \<Rightarrow> nat \<Rightarrow> tensor3 \<Rightarrow> mat \<Rightarrow> nat list \<Rightarrow> bool" where
  "well_shaped B E C logits routing_weights labels \<longleftrightarrow>
     0 < B \<and> 0 < E \<and> 0 < C \<and> shape3 B E C logits \<and> shape2 B E routing_weights \<and>
     length labels = B \<and> (\<forall>l \<in> set labels. l < C)"

text \<open>
  The arithmetic mean of \<open>x 0, ..., x (n - 1)\<close>, and their mean weighted by
  \<open>w 0, ..., w (n - 1)\<close>.
\<close>

definition arithmetic_mean :: "nat \<Rightarrow> (nat \<Rightarrow> real) \<Rightarrow> real" where
  "arithmetic_mean n x = (\<Sum>e<n. x e) / real n"

definition weighted_mean :: "nat \<Rightarrow> (nat \<Rightarrow> real) \<Rightarrow> (nat \<Rightarrow> real) \<Rightarrow> real" where
  "weighted_mean n w x = (\<Sum>e<n. w e * x e) / (\<Sum>e<n. w e)"

text \<open>The cross-entropy of expert \<open>e\<close>'s logits for example \<open>b\<close> against the label of \<open>b\<close>.\<close>

definition per_expert_cross_entropy :: "tensor3 \<Rightarrow> nat list \<Rightarrow> nat \<Rightarrow> nat \<Rightarrow> real" where
  "per_expert_cross_entropy logits labels b e =
     cross_entropy_from_logits (labels ! b) (logits ! b ! e)"

text \<open>The default flags with two experts, for running the functions on a small input.\<close>

definition two_experts :: step_flags where
  "two_experts = default_flags\<lparr>FLAGS_num_experts := 2\<rparr>"

section \<open>Properties of the metric dictionaries\<close>

lemma dom_base_metrics:
  "dom (get_diabetic_retinopathy_base_metrics use_tpu num_bins) =
     {''train/negative_log_likelihood'', ''train/accuracy'', ''train/loss'',
      ''test/negative_log_likelihood'', ''test/accuracy''} \<union>
     (if use_tpu then {''train/auc'', ''test/auc''} else {''train/ece'', ''test/ece''})"
  by (auto simp: get_diabetic_retinopathy_base_metrics_def Let_def split: if_splits)

text \<open>
  Claim C8. For every \<open>num_bins\<close> the dictionary returned by
  \<open>get_diabetic_retinopathy_base_metrics\<close> holds the five base keys; it holds the two AUC
  keys exactly when \<open>use_tpu\<close> is true and the two ECE keys exactly when \<open>use_tpu\<close> is
  false, and never an AUC key together with an ECE key.
\<close>

theorem base_metrics_keys:
  fixes use_tpu :: bool and num_bins :: int
  defines "ks \<equiv> dom (get_diabetic_retinopathy_base_metrics use_tpu num_bins)"
  shows "''train/negative_log_likelihood'' \<in> ks \<and> ''train/accuracy'' \<in> ks \<and>
         ''train/loss'' \<in> ks \<and> ''test/negative_log_likelihood'' \<in> ks \<and>
         ''test/accuracy'' \<in> ks \<and>
         (''train/auc'' \<in> ks) = use_tpu \<and> (''test/auc'' \<in> ks) = use_tpu \<and>
         (''train/ece'' \<in> ks) = (\<not> use_tpu) \<and> (''test/ece'' \<in> ks) = (\<not> use_tpu) \<and>
         \<not> ((''train/auc'' \<in> ks \<or> ''test/auc'' \<in> ks) \<and>
            (''train/ece'' \<in> ks \<or> ''test/ece'' \<in> ks))"
  unfolding ks_def dom_base_metrics by simp


text \<open>
  Claim C9, as stated, fails: with \<open>use_tpu\<close> false the first \<open>logging.info\<close> call reads
  \<open>train/auc\<close>, which the base dictionary for \<open>use_tpu\<close> false does not hold.
\<close>

theorem log_epoch_metrics_base_counterexample:
  "log_epoch_metrics (get_diabetic_retinopathy_base_metrics False 15) False =
     Inl (KeyError ''train/auc'')"
  by (simp add: log_epoch_metrics_def logging_info_def getitem_def
      get_diabetic_retinopathy_base_metrics_def)

text \<open>
  Claim C9, amended. With \<open>use_tpu\<close> true, \<open>log_epoch_metrics\<close> on the base dictionary
  finds every key it reads, for every \<open>num_bins\<close>. With \<open>use_tpu\<close> false it reads the two
  AUC keys as well, which the base dictionary leaves out (its docstring leaves them to
  the caller): on the base dictionary alone the lookup of \<open>train/auc\<close> raises, and once
  the caller has added \<open>train/auc\<close> and \<open>test/auc\<close> every key read is found.
\<close>

theorem log_epoch_metrics_base_amended:
  "log_epoch_metrics (get_diabetic_retinopathy_base_metrics True num_bins) True =
     Inr [(''Train Loss (NLL+L2): %.4f, Accuracy: %.2f%%, AUC: %.2f%%'',
           [Mean, BinaryAccuracy, AUC]),
          (''Test NLL: %.4f, Accuracy: %.2f%%, AUC: %.2f%%'',
           [Mean, BinaryAccuracy, AUC])] \<and>
   log_epoch_metrics (get_diabetic_retinopathy_base_metrics False num_bins) False =
     Inl (KeyError ''train/auc'') \<and>
   log_epoch_metrics
     (get_diabetic_retinopathy_base_metrics False num_bins ++
        [''train/auc'' \<mapsto> a1, ''test/auc'' \<mapsto> a2]) False =
     Inr [(''Train Loss (NLL+L2): %.4f, Accuracy: %.2f%%, AUC: %.2f%%, ECE: %.2f%%'',
           [Mean, BinaryAccuracy, a1, ExpectedCalibrationError num_bins]),
          (''Test NLL: %.4f, Accuracy: %.2f%%, AUC: %.2f%%, ECE: %.2f%%'',
           [Mean, BinaryAccuracy, a2, ExpectedCalibrationError num_bins])]"
  by (simp add: log_epoch_metrics_def logging_info_def getitem_def
      get_diabetic_retinopathy_base_metrics_def)

section \<open>Properties of \<open>parse_keras_models\<close>\<close>

text \<open>\<open>str_contains\<close> is the substring relation.\<close>

lemma str_contains_sublist: "str_contains needle hay = sublist needle hay"
proof (induction hay)
  case Nil
  show ?case by auto
next
  case (Cons c cs)
  have "take (length needle) (c # cs) = needle \<longleftrightarrow> prefix needle (c # cs)"
    by (metis append_take_drop_id prefix_def append_eq_conv_conj)
  then show ?case using Cons
    by (cases needle) (simp_all add: sublist_Cons_right)
qed

text \<open>The loop appends, in the order of the listing, the joined path of each entry it keeps.\<close>

lemma parse_keras_models_loop_filter:
  "parse_keras_models_loop fs d names paths =
     paths @ map (os_path_join d)
       (filter (\<lambda>n. isdir fs (os_path_join d n) \<and> is_keras_model_dir n) names)"
  by (induction names arbitrary: paths) (simp_all add: Let_def)

text \<open>
  Claim C10. When \<open>checkpoint_dir\<close> lists as \<open>names\<close>, \<open>parse_keras_models\<close> returns
  the joined paths \<open>os.path.join(checkpoint_dir, d)\<close> of exactly those entries \<open>d\<close> whose
  joined path is a directory and whose name has \<open>keras_model\<close> as a substring, in the
  order of the listing, and leaves the file system as it was.
\<close>

theorem parse_keras_models_paths:
  assumes "listdir fs checkpoint_dir = Inr names"
  shows "parse_keras_models fs checkpoint_dir =
     (Inr (map (os_path_join checkpoint_dir)
        (filter (\<lambda>d. isdir fs (os_path_join checkpoint_dir d) \<and> sublist ''keras_model'' d)
           names)), fs)"
  using assms
  by (simp add: parse_keras_models_def parse_keras_models_loop_filter is_keras_model_dir_def
      str_contains_sublist)

theorem parse_keras_models_paths_witness:
  "listdir example_fs ''ckpt'' =
     Inr [''keras_model_0'', ''notes'', ''keras_model.txt'', ''old_keras_model''] \<and>
   parse_keras_models example_fs ''ckpt'' =
     (Inr [''ckpt/keras_model_0'', ''ckpt/old_keras_model''], example_fs)"
proof -
  have l: "listdir example_fs ''ckpt'' =
      Inr [''keras_model_0'', ''notes'', ''keras_model.txt'', ''old_keras_model'']"
    by (simp add: example_fs_def)
  have i: "isdir example_fs =
      (\<lambda>p. p \<in> {''ckpt'', ''ckpt/keras_model_0'', ''ckpt/notes'', ''ckpt/old_keras_model''})"
    by (simp add: example_fs_def)
  show ?thesis
    using parse_keras_models_paths [OF l] l
    by (simp add: i os_path_join_def sublist_code)
qed

text \<open>A directory that cannot be listed: the framework's error is the result.\<close>

lemma parse_keras_models_not_found:
  "parse_keras_models example_fs ''nope'' = (Inl (NotFoundError ''nope''), example_fs)"
  by (simp add: parse_keras_models_def example_fs_def)

section \<open>Properties of the training loop\<close>

text \<open>
  A loop whose body, when it returns, appends \<open>f x\<close> to the trace appends the \<open>f x\<close> of
  all its iterations; and it returns when every iteration does.
\<close>

lemma for_each_trace:
  assumes "\<And>x s s'. x \<in> set xs \<Longrightarrow> body x s = Inr s' \<Longrightarrow> s' = s @ f x"
    and "for_each xs body s = Inr s'"
  shows "s' = s @ concat (map f xs)"
  using assms
proof (induction xs arbitrary: s)
  case Nil
  then show ?case by simp
next
  case (Cons x xs)
  from Cons.prems(2) obtain s1 where b: "body x s = Inr s1" and r: "for_each xs body s1 = Inr s'"
    by (auto split: sum.splits)
  have "s1 = s @ f x" using Cons.prems(1) b by simp
  moreover have "s' = s1 @ concat (map f xs)"
    using Cons.IH [OF _ r] Cons.prems(1) by simp
  ultimately show ?case by simp
qed

lemma for_each_returns:
  assumes "\<And>x s. x \<in> set xs \<Longrightarrow> \<exists>s'. body x s = Inr s'"
  shows "\<exists>s'. for_each xs body s = Inr s'"
  using assms
proof (induction xs arbitrary: s)
  case Nil
  then show ?case by simp
next
  case (Cons x xs)
  then obtain s1 where "body x s = Inr s1" by fastforce
  then show ?case using Cons by simp
qed

lemma train_loop_trace:
  assumes "for_each xs (train_step env epoch) tr = Inr tr'"
  shows "tr' = tr @ map (Train_step epoch) xs"
proof -
  have "tr' = tr @ concat (map (\<lambda>step. [Train_step epoch step]) xs)"
    by (rule for_each_trace [OF _ assms])
       (auto simp: train_step_def split: option.splits)
  then show ?thesis by (simp add: concat_map_singleton)
qed

lemma test_loop_trace:
  assumes "for_each xs (test_step env d epoch) tr = Inr tr'"
  shows "tr' = tr @ map (Test_step d epoch) xs"
proof -
  have "tr' = tr @ concat (map (\<lambda>step. [Test_step d epoch step]) xs)"
    by (rule for_each_trace [OF _ assms])
       (auto simp: test_step_def split: option.splits)
  then show ?thesis by (simp add: concat_map_singleton)
qed

lemma eval_loop_trace:
  assumes "for_each ds (\<lambda>(dataset_name, test_dataset).
              for_each (py_range 0 (steps_per_eval env)) (test_step env dataset_name epoch)) tr
           = Inr tr'"
  shows "tr' = tr @ eval_events env epoch (map fst ds)"
proof -
  have "tr' = tr @ concat (map (\<lambda>(d, t). map (Test_step d epoch) (py_range 0 (steps_per_eval env))) ds)"
    by (rule for_each_trace [OF _ assms]) (auto dest: test_loop_trace)
  moreover have "map (\<lambda>(d, t). map (Test_step d epoch) (py_range 0 (steps_per_eval env))) ds
      = map (\<lambda>d. map (Test_step d epoch) (py_range 0 (steps_per_eval env))) (map fst ds)"
    by (induction ds) auto
  ultimately show ?thesis by (simp add: eval_events_def)
qed

text \<open>The keys of \<open>test_datasets\<close>: \<open>clean\<close> first, then the corrupted names.\<close>

lemma format_dataset_name_not_clean: "format_dataset_name c i \<noteq> ''clean''"
proof
  assume "format_dataset_name c i = ''clean''"
  then have "CHR ''_'' \<in> set ''clean''"
    by (metis format_dataset_name_def in_set_conv_decomp append_Cons)
  then show False by simp
qed

lemma clean_first_update:
  assumes "clean_first td" and "k \<noteq> ''clean''"
  shows "clean_first (AList.update k v td)"
proof -
  from assms(1) obtain rest where td: "td = (''clean'', Clean_test) # rest"
    and nc: "''clean'' \<notin> fst ` set rest"
    by (auto simp: clean_first_def)
  have "AList.update k v td = (''clean'', Clean_test) # AList.update k v rest"
    using assms(2) td by simp
  moreover have "''clean'' \<notin> fst ` set (AList.update k v rest)"
    using nc assms(2) by (simp add: dom_update)
  ultimately show ?thesis unfolding clean_first_def by blast
qed

lemma clean_first_fold_intensity:
  "clean_first td \<Longrightarrow>
   clean_first (fold (\<lambda>intensity td. AList.update (format_dataset_name c intensity)
                        (Corrupted_test c intensity) td) is td)"
  by (induction "is" arbitrary: td) (simp_all add: clean_first_update format_dataset_name_not_clean)

lemma clean_first_fold_corruption:
  "clean_first td \<Longrightarrow>
   clean_first (fold (\<lambda>corruption td.
                   fold (\<lambda>intensity td. AList.update (format_dataset_name corruption intensity)
                        (Corrupted_test corruption intensity) td) is td) cs td)"
  by (induction cs arbitrary: td) (simp_all add: clean_first_fold_intensity)

lemma clean_first_test_datasets: "clean_first (test_datasets env)"
proof -
  have "clean_first [(''clean'', Clean_test)]" by (simp add: clean_first_def)
  then show ?thesis
    by (simp add: test_datasets_def Let_def clean_first_fold_corruption)
qed

lemma test_datasets_keys: "map fst (test_datasets env) = ''clean'' # corrupted_names env"
proof -
  from clean_first_test_datasets obtain rest where
    td: "test_datasets env = (''clean'', Clean_test) # rest" and nc: "''clean'' \<notin> fst ` set rest"
    by (auto simp: clean_first_def)
  have "filter (\<lambda>n. n \<noteq> ''clean'') (map fst rest) = map fst rest"
    using nc by (simp add: filter_id_conv image_iff) (metis fst_conv)
  then show ?thesis by (simp add: corrupted_names_def td)
qed

lemma test_datasets_clean: "getitem (map_of (test_datasets env)) ''clean'' = Inr Clean_test"
proof -
  from clean_first_test_datasets obtain rest where
    "test_datasets env = (''clean'', Clean_test) # rest"
    by (auto simp: clean_first_def)
  then show ?thesis by (simp add: getitem_def)
qed

lemma clean_not_corrupted: "''clean'' \<notin> set (corrupted_names env)"
  by (simp add: corrupted_names_def)

lemma keys_fold_intensity:
  "fst ` set (fold (\<lambda>intensity td. AList.update (format_dataset_name c intensity)
                        (Corrupted_test c intensity) td) is td)
   = format_dataset_name c ` set is \<union> fst ` set td"
  by (induction "is" arbitrary: td) (auto simp: dom_update)

lemma keys_fold_corruption:
  "fst ` set (fold (\<lambda>corruption td.
                   fold (\<lambda>intensity td. AList.update (format_dataset_name corruption intensity)
                        (Corrupted_test corruption intensity) td) is td) cs td)
   = (\<Union>c \<in> set cs. format_dataset_name c ` set is) \<union> fst ` set td"
  by (induction cs arbitrary: td) (auto simp: keys_fold_intensity)

lemma set_py_range: "set (py_range a b) = {a..<b}"
  by (auto simp: py_range_def)

lemma corrupted_keys_set:
  "(\<Union>c \<in> set cs. format_dataset_name c ` {1..<m + 1}) =
     {format_dataset_name c i | c i. c \<in> set cs \<and> 1 \<le> i \<and> i \<le> m}"
proof (rule set_eqI)
  fix n
  have "(\<exists>c \<in> set cs. \<exists>i \<in> {1..<m + 1}. n = format_dataset_name c i) \<longleftrightarrow>
        (\<exists>c i. n = format_dataset_name c i \<and> c \<in> set cs \<and> 1 \<le> i \<and> i \<le> m)"
    by (simp add: Bex_def) blast
  then show "n \<in> (\<Union>c \<in> set cs. format_dataset_name c ` {1..<m + 1}) \<longleftrightarrow>
        n \<in> {format_dataset_name c i | c i. c \<in> set cs \<and> 1 \<le> i \<and> i \<le> m}"
    by (simp add: image_iff)
qed

lemma set_corrupted_names:
  "set (corrupted_names env) =
     (if FLAGS_corruptions_interval env > 0
      then {format_dataset_name c i | c i. c \<in> set (corruption_types env) \<and>
              1 \<le> i \<and> i \<le> max_intensity env}
      else {})"
proof (cases "FLAGS_corruptions_interval env > 0")
  case True
  have k: "fst ` set (test_datasets env) =
      {format_dataset_name c i | c i. c \<in> set (corruption_types env) \<and>
              1 \<le> i \<and> i \<le> max_intensity env} \<union> {''clean''}"
    using True
    by (simp add: test_datasets_def Let_def keys_fold_corruption set_py_range
        corrupted_keys_set del: Un_insert_right)
  have "set (corrupted_names env) = fst ` set (test_datasets env) - {''clean''}"
    unfolding corrupted_names_def by auto
  also have "\<dots> = {format_dataset_name c i | c i. c \<in> set (corruption_types env) \<and>
              1 \<le> i \<and> i \<le> max_intensity env} - {''clean''}"
    unfolding k by blast
  also have "\<dots> = {format_dataset_name c i | c i. c \<in> set (corruption_types env) \<and>
              1 \<le> i \<and> i \<le> max_intensity env}"
    using format_dataset_name_not_clean by fastforce
  finally show ?thesis using True by simp
next
  case False
  then show ?thesis by (simp add: corrupted_names_def test_datasets_def)
qed

lemma distinct_corrupted_names: "distinct (corrupted_names env)"
proof -
  have d: "\<And>is c td. distinct (map fst td) \<Longrightarrow> distinct (map fst (fold (\<lambda>intensity td. AList.update (format_dataset_name c intensity)
                        (Corrupted_test c intensity) td) is td))"
    subgoal for "is" c td by (induction "is" arbitrary: td) (simp_all add: distinct_update)
    done
  have d2: "\<And>is cs td. distinct (map fst td) \<Longrightarrow> distinct (map fst (fold (\<lambda>corruption td.
                   fold (\<lambda>intensity td. AList.update (format_dataset_name corruption intensity)
                        (Corrupted_test corruption intensity) td) is td) cs td))"
    subgoal for "is" cs td by (induction cs arbitrary: td) (simp_all add: d)
    done
  have "distinct (map fst (test_datasets env))"
    by (simp add: test_datasets_def Let_def d2)
  then show ?thesis by (simp add: test_datasets_keys)
qed

text \<open>The trace of an epoch and of a run that complete, and that they do complete.\<close>

lemma run_epoch_trace:
  assumes "run_epoch env epoch tr = Inr tr'"
  shows "tr' = tr @ epoch_events env epoch"
proof -
  let ?cc = "FLAGS_corruptions_interval env > 0 \<and>
             (epoch + 1) mod FLAGS_corruptions_interval env = 0"
  let ?ds = "if ?cc then test_datasets env else [(''clean'', Clean_test)]"
  from assms obtain tr1 tr2 where
    t1: "for_each (py_range 0 (steps_per_epoch env)) (train_step env epoch) tr = Inr tr1" and
    t2: "for_each ?ds (\<lambda>(dataset_name, test_dataset).
              for_each (py_range 0 (steps_per_eval env)) (test_step env dataset_name epoch)) tr1
           = Inr tr2" and
    t3: "tr' = (if ?cc then tr2 @ [Aggregate_corrupt_metrics epoch] else tr2) @
            [Write_summaries epoch, Reset_metrics epoch] @
            (if FLAGS_checkpoint_interval env > 0 \<and>
                (epoch + 1) mod FLAGS_checkpoint_interval env = 0
             then [Save_checkpoint epoch] else [])"
    unfolding run_epoch_def test_datasets_clean Let_def
    by (auto split: sum.splits if_splits)
  have e1: "tr1 = tr @ map (Train_step epoch) (py_range 0 (steps_per_epoch env))"
    using train_loop_trace [OF t1] .
  have e2: "tr2 = tr1 @ eval_events env epoch (map fst ?ds)"
    using eval_loop_trace [OF t2] .
  have k: "map fst ?ds = (if ?cc then ''clean'' # corrupted_names env else [''clean''])"
    by (simp add: test_datasets_keys)
  show ?thesis
    unfolding t3 e2 e1 k epoch_events_def
    by (simp add: dvd_eq_mod_eq_0)
qed

lemma main_loop_trace:
  assumes "main_loop env = Inr tr"
  shows "tr = concat (map (epoch_events env)
                (py_range (initial_epoch env) (FLAGS_train_epochs env))) @ [Save_last_checkpoint]"
proof -
  from assms obtain tr0 where
    f: "for_each (py_range (initial_epoch env) (FLAGS_train_epochs env)) (run_epoch env) [] = Inr tr0"
    and t: "tr = tr0 @ [Save_last_checkpoint]"
    by (auto simp: main_loop_def split: sum.splits)
  have "tr0 = [] @ concat (map (epoch_events env)
                (py_range (initial_epoch env) (FLAGS_train_epochs env)))"
    by (rule for_each_trace [OF _ f]) (rule run_epoch_trace)
  then show ?thesis using t by simp
qed

lemma run_epoch_returns:
  assumes "\<And>step. train_step_raises env epoch step = None"
    and "\<And>d step. test_step_raises env d epoch step = None"
  shows "run_epoch env epoch tr = Inr (tr @ epoch_events env epoch)"
proof -
  let ?cc = "FLAGS_corruptions_interval env > 0 \<and>
             (epoch + 1) mod FLAGS_corruptions_interval env = 0"
  let ?ds = "if ?cc then test_datasets env else [(''clean'', Clean_test)]"
  have "\<exists>tr1. for_each (py_range 0 (steps_per_epoch env)) (train_step env epoch) tr = Inr tr1"
    by (rule for_each_returns) (simp add: train_step_def assms(1))
  then obtain tr1 where
    t1: "for_each (py_range 0 (steps_per_epoch env)) (train_step env epoch) tr = Inr tr1" ..
  have inner: "\<exists>s'. for_each (py_range 0 (steps_per_eval env)) (test_step env d epoch) s = Inr s'"
    for d s
    by (rule for_each_returns) (simp add: test_step_def assms(2))
  have "\<exists>tr2. for_each ?ds (\<lambda>(dataset_name, test_dataset).
              for_each (py_range 0 (steps_per_eval env)) (test_step env dataset_name epoch)) tr1
           = Inr tr2"
    by (rule for_each_returns) (auto simp: inner)
  then obtain tr2 where
    t2: "for_each ?ds (\<lambda>(dataset_name, test_dataset).
              for_each (py_range 0 (steps_per_eval env)) (test_step env dataset_name epoch)) tr1
           = Inr tr2" ..
  have "\<exists>tr'. run_epoch env epoch tr = Inr tr'"
    by (simp add: run_epoch_def test_datasets_clean Let_def t1 t2)
  then show ?thesis using run_epoch_trace by blast
qed

lemma main_loop_returns:
  assumes "\<And>epoch step. train_step_raises env epoch step = None"
    and "\<And>d epoch step. test_step_raises env d epoch step = None"
  shows "\<exists>tr. main_loop env = Inr tr"
proof -
  have "\<exists>tr0. for_each (py_range (initial_epoch env) (FLAGS_train_epochs env)) (run_epoch env) [] = Inr tr0"
    by (rule for_each_returns) (simp add: run_epoch_returns assms)
  then show ?thesis by (auto simp: main_loop_def)
qed

lemma length_py_range: "length (py_range 0 n) = nat n"
  by (simp add: py_range_def)

lemma eval_events_Cons:
  "eval_events env epoch (d # ds) =
     map (Test_step d epoch) (py_range 0 (steps_per_eval env)) @ eval_events env epoch ds"
  by (simp add: eval_events_def)

lemma filter_is_step_eval: "filter is_step (eval_events env epoch ds) = eval_events env epoch ds"
  by (induction ds) (simp_all add: eval_events_def is_step_def filter_id_conv)

lemma steps_of_epoch_events:
  "filter is_step (epoch_events env epoch) =
     map (Train_step epoch) (py_range 0 (steps_per_epoch env)) @
     map (Test_step ''clean'' epoch) (py_range 0 (steps_per_eval env)) @
     (if FLAGS_corruptions_interval env > 0 \<and> FLAGS_corruptions_interval env dvd epoch + 1
      then eval_events env epoch (corrupted_names env) else [])"
proof -
  have t: "filter is_step (map (Train_step epoch) xs) = map (Train_step epoch) xs" for xs
    by (simp add: is_step_def filter_id_conv)
  have c: "filter is_step (map (Test_step ''clean'' epoch) xs) = map (Test_step ''clean'' epoch) xs"
    for xs
    by (simp add: is_step_def filter_id_conv)
  show ?thesis
    by (simp add: epoch_events_def eval_events_Cons filter_is_step_eval t c is_step_def)
       (simp add: eval_events_def)
qed

text \<open>
  The steps of an epoch that completes: \<open>steps_per_epoch\<close> training steps, then
  \<open>steps_per_eval\<close> evaluation steps on the clean test set, and after them the evaluation
  of the corrupted test sets exactly when \<open>corruptions_interval > 0\<close> and \<open>epoch + 1\<close> is
  divisible by it. This says nothing of an epoch in which a step raises.
\<close>

lemma completed_epoch_steps:
  assumes "run_epoch env epoch tr = Inr tr'"
  shows "filter is_step (drop (length tr) tr') =
           map (Train_step epoch) (py_range 0 (steps_per_epoch env)) @
           map (Test_step ''clean'' epoch) (py_range 0 (steps_per_eval env)) @
           (if FLAGS_corruptions_interval env > 0 \<and>
               FLAGS_corruptions_interval env dvd epoch + 1
            then eval_events env epoch (corrupted_names env) else []) \<and>
         length (py_range 0 (steps_per_epoch env)) = nat (steps_per_epoch env) \<and>
         length (py_range 0 (steps_per_eval env)) = nat (steps_per_eval env) \<and>
         ''clean'' \<notin> set (corrupted_names env) \<and>
         (FLAGS_corruptions_interval env = - 1 \<longrightarrow>
            filter is_step (drop (length tr) tr') =
              map (Train_step epoch) (py_range 0 (steps_per_epoch env)) @
              map (Test_step ''clean'' epoch) (py_range 0 (steps_per_eval env)))"
proof -
  have "drop (length tr) tr' = epoch_events env epoch"
    using run_epoch_trace [OF assms] by simp
  then show ?thesis
    by (simp add: steps_of_epoch_events length_py_range clean_not_corrupted)
qed

lemma example_env_main_loop:
  "main_loop example_env =
     Inr [Train_step 0 0, Train_step 0 1, Test_step ''clean'' 0 0,
          Write_summaries 0, Reset_metrics 0, Train_step 1 0, Train_step 1 1,
          Test_step ''clean'' 1 0, Test_step ''gaussian_noise_1'' 1 0,
          Aggregate_corrupt_metrics 1, Write_summaries 1, Reset_metrics 1,
          Save_checkpoint 1, Save_last_checkpoint]"
  by code_simp

lemma example_env_run_epoch:
  "run_epoch example_env 1 [] =
     Inr [Train_step 1 0, Train_step 1 1,
          Test_step ''clean'' 1 0, Test_step ''gaussian_noise_1'' 1 0,
          Aggregate_corrupt_metrics 1, Write_summaries 1, Reset_metrics 1,
          Save_checkpoint 1]"
  by code_simp

lemma completed_epoch_steps_example:
  "run_epoch example_env 1 [] =
     Inr [Train_step 1 0, Train_step 1 1,
          Test_step ''clean'' 1 0, Test_step ''gaussian_noise_1'' 1 0,
          Aggregate_corrupt_metrics 1, Write_summaries 1, Reset_metrics 1,
          Save_checkpoint 1] \<and>
   filter is_step (drop (length ([] :: event list))
        [Train_step 1 0, Train_step 1 1,
          Test_step ''clean'' 1 0, Test_step ''gaussian_noise_1'' 1 0,
          Aggregate_corrupt_metrics 1, Write_summaries 1, Reset_metrics 1,
          Save_checkpoint 1]) =
     map (Train_step 1) (py_range 0 (steps_per_epoch example_env)) @
     map (Test_step ''clean'' 1) (py_range 0 (steps_per_eval example_env)) @
     eval_events example_env 1 (corrupted_names example_env) \<and>
   FLAGS_corruptions_interval example_env \<noteq> - 1"
proof -
  have c: "FLAGS_corruptions_interval example_env = 2"
    by (simp add: example_env_def)
  show ?thesis
    using completed_epoch_steps [OF example_env_run_epoch] example_env_run_epoch
    by (simp add: c)
qed

lemma checkpoint_in_epoch_events:
  "Save_checkpoint e \<in> set (epoch_events env e') \<longleftrightarrow>
     e = e' \<and> FLAGS_checkpoint_interval env > 0 \<and> FLAGS_checkpoint_interval env dvd e' + 1"
  by (auto simp: epoch_events_def eval_events_def)

lemma last_checkpoint_not_in_epoch_events:
  "Save_last_checkpoint \<notin> set (epoch_events env e)"
  by (auto simp: epoch_events_def eval_events_def)

lemma epoch_events_last:
  "FLAGS_checkpoint_interval env > 0 \<Longrightarrow> FLAGS_checkpoint_interval env dvd e + 1 \<Longrightarrow>
   last (epoch_events env e) = Save_checkpoint e"
  by (simp add: epoch_events_def)

text \<open>
  Claim C6. In a run that completes, a checkpoint is saved for epoch \<open>e\<close> in the loop
  exactly when \<open>e\<close> is an epoch of the run, \<open>checkpoint_interval > 0\<close> and \<open>e + 1\<close> is
  divisible by it, and it is then the last thing the epoch does; whatever
  \<open>checkpoint_interval\<close> is, the last checkpoint is saved exactly once, after the loop.
  (\<open>main_loop_returns\<close>: a run none of whose steps raises completes.)
\<close>

theorem checkpoint_schedule:
  assumes "main_loop env = Inr tr"
  shows "(\<forall>e. Save_checkpoint e \<in> set tr \<longleftrightarrow>
              initial_epoch env \<le> e \<and> e < FLAGS_train_epochs env \<and>
              FLAGS_checkpoint_interval env > 0 \<and> FLAGS_checkpoint_interval env dvd e + 1) \<and>
         (\<forall>e tr0 tr1. run_epoch env e tr0 = Inr tr1 \<longrightarrow>
              (if FLAGS_checkpoint_interval env > 0 \<and> FLAGS_checkpoint_interval env dvd e + 1
               then last tr1 = Save_checkpoint e
               else Save_checkpoint e \<notin> set (drop (length tr0) tr1))) \<and>
         count_list tr Save_last_checkpoint = 1 \<and> last tr = Save_last_checkpoint"
proof -
  let ?epochs = "py_range (initial_epoch env) (FLAGS_train_epochs env)"
  have tr: "tr = concat (map (epoch_events env) ?epochs) @ [Save_last_checkpoint]"
    using main_loop_trace [OF assms] .
  have a: "Save_checkpoint e \<in> set tr \<longleftrightarrow>
              initial_epoch env \<le> e \<and> e < FLAGS_train_epochs env \<and>
              FLAGS_checkpoint_interval env > 0 \<and> FLAGS_checkpoint_interval env dvd e + 1" for e
    unfolding tr by (auto simp: checkpoint_in_epoch_events set_py_range)
  have b: "(if FLAGS_checkpoint_interval env > 0 \<and> FLAGS_checkpoint_interval env dvd e + 1
               then last tr1 = Save_checkpoint e
               else Save_checkpoint e \<notin> set (drop (length tr0) tr1))"
    if "run_epoch env e tr0 = Inr tr1" for e tr0 tr1
  proof -
    have "tr1 = tr0 @ epoch_events env e" using run_epoch_trace [OF that] .
    moreover have "epoch_events env e \<noteq> []" by (simp add: epoch_events_def)
    ultimately show ?thesis
      by (simp add: epoch_events_last checkpoint_in_epoch_events)
  qed
  have "Save_last_checkpoint \<notin> set (concat (map (epoch_events env) ?epochs))"
    by (simp add: last_checkpoint_not_in_epoch_events)
  then have c: "count_list tr Save_last_checkpoint = 1"
    unfolding tr by (simp add: count_list_0_iff del: set_concat)
  have d: "last tr = Save_last_checkpoint" unfolding tr by simp
  show ?thesis using a b c d by blast
qed

theorem checkpoint_schedule_witness:
  "main_loop example_env =
     Inr [Train_step 0 0, Train_step 0 1, Test_step ''clean'' 0 0,
          Write_summaries 0, Reset_metrics 0, Train_step 1 0, Train_step 1 1,
          Test_step ''clean'' 1 0, Test_step ''gaussian_noise_1'' 1 0,
          Aggregate_corrupt_metrics 1, Write_summaries 1, Reset_metrics 1,
          Save_checkpoint 1, Save_last_checkpoint] \<and>
   (\<forall>e. Save_checkpoint e \<in>
          set [Train_step 0 0, Train_step 0 1, Test_step ''clean'' 0 0,
          Write_summaries 0, Reset_metrics 0, Train_step 1 0, Train_step 1 1,
          Test_step ''clean'' 1 0, Test_step ''gaussian_noise_1'' 1 0,
          Aggregate_corrupt_metrics 1, Write_summaries 1, Reset_metrics 1,
          Save_checkpoint 1, Save_last_checkpoint] \<longleftrightarrow>
        initial_epoch example_env \<le> e \<and> e < FLAGS_train_epochs example_env \<and>
        FLAGS_checkpoint_interval example_env > 0 \<and>
        FLAGS_checkpoint_interval example_env dvd e + 1)"
  using checkpoint_schedule [OF example_env_main_loop] example_env_main_loop
  by blast

text \<open>With \<open>checkpoint_interval = -1\<close> the run saves the last checkpoint only.\<close>

lemma no_checkpoint_env_main_loop:
  "main_loop no_checkpoint_env =
     Inr [Train_step 0 0, Train_step 0 1, Test_step ''clean'' 0 0,
          Write_summaries 0, Reset_metrics 0, Train_step 1 0, Train_step 1 1,
          Test_step ''clean'' 1 0, Test_step ''gaussian_noise_1'' 1 0,
          Aggregate_corrupt_metrics 1, Write_summaries 1, Reset_metrics 1,
          Save_last_checkpoint]"
  by code_simp

section \<open>Properties of the metric updates of \<open>test_step\<close>\<close>

lemma example_corrupted_names: "corrupted_names example_env = [''gaussian_noise_1'']"
  by code_simp

text \<open>
  Claim C5 fails on the code. With \<open>corruptions_interval > 0\<close> on the CondDense path, the
  fourth update of \<open>test_step\<close> for the corrupted dataset \<open>gaussian_noise_1\<close> looks up
  \<open>test/nll_weighted_moegaussian_noise_1\<close>: the format string lacks the underscore that
  the key in \<open>corrupt_metrics\<close> has, and the lookup raises \<open>KeyError\<close>.
\<close>

theorem test_step_corrupted_key_error:
  "0 < FLAGS_corruptions_interval example_env \<and>
   \<not> FLAGS_reduce_dense_outputs default_flags \<and> FLAGS_use_cond_dense default_flags \<and>
   ''gaussian_noise_1'' \<in> set (corrupted_names example_env) \<and>
   test_step_update_metrics example_env default_flags ''gaussian_noise_1'' =
     Inl (KeyError ''test/nll_weighted_moegaussian_noise_1'')"
  by code_simp

text \<open>
  The clean dataset on the same path, and the corrupted dataset on the other path, find
  all their keys; \<open>corrupt_metrics\<close> holds the three weighted keys with the underscore.
\<close>

lemma test_step_clean_default:
  "test_step_update_metrics example_env default_flags ''clean'' =
     Inr [Mean, Mean, Mean, Mean, Mean, Mean, ExpectedCalibrationError 15,
          SparseCategoricalAccuracy, ExpectedCalibrationError 15, SparseCategoricalAccuracy,
          ExpectedCalibrationError 15, SparseCategoricalAccuracy,
          ExpectedCalibrationError 15, SparseCategoricalAccuracy,
          Mean, Mean, Mean, Mean, Mean, Mean, Mean, Mean]"
  by code_simp

lemma test_step_corrupted_reduce_dense:
  "test_step_update_metrics example_env (default_flags\<lparr>FLAGS_reduce_dense_outputs := True\<rparr>)
     ''gaussian_noise_1'' =
     Inr [Mean, SparseCategoricalAccuracy, ExpectedCalibrationError 15]"
  by code_simp

lemma corrupt_metrics_sibling_keys:
  "map (\<lambda>k. k \<in> dom (the (corrupt_metrics example_env default_flags)))
     [''test/nll_weighted_moe_gaussian_noise_1'', ''test/accuracy_weighted_moe_gaussian_noise_1'',
      ''test/ece_weighted_moe_gaussian_noise_1'', ''test/nll_weighted_moegaussian_noise_1'',
      ''test/ece_weighted_moegaussian_noise_1''] = [True, True, True, False, False]"
  by (simp add: corrupt_metrics_def example_env_def default_flags_def py_range_def
      format_dataset_name_def str_int_def str_nat.simps dom_def Let_def)


section \<open>The schedule of the corrupted test sets on the CondDense path\<close>

text \<open>
  Claim C7 fails on the code. With the default flags and \<open>corruptions_interval = 2\<close>, the
  corrupted test set is due in epoch 1. The two training steps and the evaluation step
  on the clean test set run; the first evaluation step on \<open>gaussian_noise_1\<close> raises the
  \<open>KeyError\<close> of its fourth metric update, so the corrupted test set is not evaluated,
  the epoch does not complete and neither does the run.
\<close>

theorem corrupted_evaluation_raises:
  "0 < FLAGS_corruptions_interval cond_dense_run \<and>
   (1 + 1) mod FLAGS_corruptions_interval cond_dense_run = 0 \<and>
   corrupted_names cond_dense_run = [''gaussian_noise_1''] \<and>
   for_each (py_range 0 (steps_per_epoch cond_dense_run)) (train_step cond_dense_run 1) [] =
     Inr [Train_step 1 0, Train_step 1 1] \<and>
   for_each (py_range 0 (steps_per_eval cond_dense_run)) (test_step cond_dense_run ''clean'' 1)
       [Train_step 1 0, Train_step 1 1] =
     Inr [Train_step 1 0, Train_step 1 1, Test_step ''clean'' 1 0] \<and>
   test_step cond_dense_run ''gaussian_noise_1'' 1 0
       [Train_step 1 0, Train_step 1 1, Test_step ''clean'' 1 0] =
     Inl (KeyError ''test/nll_weighted_moegaussian_noise_1'') \<and>
   run_epoch cond_dense_run 1 [] = Inl (KeyError ''test/nll_weighted_moegaussian_noise_1'') \<and>
   main_loop cond_dense_run = Inl (KeyError ''test/nll_weighted_moegaussian_noise_1'')"
  by code_simp

text \<open>
  On the same path an epoch in which the corrupted test sets are not due completes, and
  so does the whole run with \<open>corruptions_interval = -1\<close>, which evaluates the clean test
  set only. With \<open>reduce_dense_outputs\<close> set, the epoch in which they are due completes
  and evaluates them.
\<close>

lemma cond_dense_run_epoch_0:
  "run_epoch cond_dense_run 0 [] =
     Inr [Train_step 0 0, Train_step 0 1, Test_step ''clean'' 0 0,
          Write_summaries 0, Reset_metrics 0]"
  by code_simp

lemma cond_dense_never_corrupted:
  "main_loop (with_test_step_metrics default_flags
       (example_env\<lparr>FLAGS_corruptions_interval := - 1\<rparr>)) =
     Inr [Train_step 0 0, Train_step 0 1, Test_step ''clean'' 0 0,
          Write_summaries 0, Reset_metrics 0, Train_step 1 0, Train_step 1 1,
          Test_step ''clean'' 1 0, Write_summaries 1, Reset_metrics 1,
          Save_checkpoint 1, Save_last_checkpoint]"
  by code_simp

lemma reduce_dense_run_epoch_1:
  "run_epoch reduce_dense_run 1 [] =
     Inr [Train_step 1 0, Train_step 1 1,
          Test_step ''clean'' 1 0, Test_step ''gaussian_noise_1'' 1 0,
          Aggregate_corrupt_metrics 1, Write_summaries 1, Reset_metrics 1,
          Save_checkpoint 1]"
  by code_simp

section \<open>Properties of \<open>_process_3d_logits\<close>\<close>

subsection \<open>Shapes and entries of the intermediate tensors\<close>

lemma shape2_nth: "shape2 B E m \<Longrightarrow> b < B \<Longrightarrow> length (m ! b) = E"
  by (simp add: shape2_def)

lemma shape2_length: "shape2 B E m \<Longrightarrow> length m = B"
  by (simp add: shape2_def)

lemma shape3_length: "shape3 B E C t \<Longrightarrow> length t = B"
  by (simp add: shape3_def)

lemma shape3_nth: "shape3 B E C t \<Longrightarrow> b < B \<Longrightarrow> shape2 E C (t ! b)"
  by (simp add: shape3_def)

lemma shape2I: "length m = B \<Longrightarrow> (\<And>b. b < B \<Longrightarrow> length (m ! b) = E) \<Longrightarrow> shape2 B E m"
  by (auto simp: shape2_def in_set_conv_nth)

lemma shape3I: "length t = B \<Longrightarrow> (\<And>b. b < B \<Longrightarrow> shape2 E C (t ! b)) \<Longrightarrow> shape3 B E C t"
  by (auto simp: shape3_def in_set_conv_nth)

lemma sum_list_nth: "sum_list (xs :: real list) = (\<Sum>i<length xs. xs ! i)"
  by (simp add: sum_list_sum_nth atLeast0LessThan)

lemma sum_list_map_upt: "sum_list (map f [0..<n]) = (\<Sum>i<n. (f i :: real))"
  by (simp add: interv_sum_list_conv_sum_set_nat atLeast0LessThan)

lemma transpose_shape2:
  assumes "shape2 E C row" and "0 < E"
  shows "transpose row = map (\<lambda>c. map (\<lambda>e. row ! e ! c) [0..<E]) [0..<C]"
proof -
  have "transpose row = map (\<lambda>c. map (\<lambda>e. row ! e ! c) [0..<length row]) [0..<C]"
    by (rule transpose_rectangle) (use assms in \<open>auto simp: shape2_def\<close>)
  then show ?thesis using assms by (simp add: shape2_def)
qed

lemma reduce_mean_axis1_nth:
  assumes "shape3 B E C t" and "0 < E" and "b < B" and "c < C"
  shows "reduce_mean_axis1 t ! b ! c = (\<Sum>e<E. t ! b ! e ! c) / real E"
proof -
  have s: "shape2 E C (t ! b)" using assms shape3_nth by blast
  have "reduce_mean_axis1 t ! b =
      map (\<lambda>col. sum_list col / real (length (t ! b))) (transpose (t ! b))"
    using assms by (simp add: reduce_mean_axis1_def shape3_length)
  then show ?thesis
    using assms s by (simp add: transpose_shape2 [OF s] sum_list_map_upt shape2_length)
qed

lemma reduce_sum_axis1_nth:
  assumes "shape3 B E C t" and "0 < E" and "b < B" and "c < C"
  shows "reduce_sum_axis1 t ! b ! c = (\<Sum>e<E. t ! b ! e ! c)"
proof -
  have s: "shape2 E C (t ! b)" using assms shape3_nth by blast
  have "reduce_sum_axis1 t ! b = map sum_list (transpose (t ! b))"
    using assms by (simp add: reduce_sum_axis1_def shape3_length)
  then show ?thesis
    using assms by (simp add: transpose_shape2 [OF s] sum_list_map_upt)
qed

lemma reduce_axis1_shape:
  assumes "shape3 B E C t" and "0 < E"
  shows "shape2 B C (reduce_mean_axis1 t)" and "shape2 B C (reduce_sum_axis1 t)"
proof -
  have "length (transpose (t ! b)) = C" if "b < B" for b
    using transpose_shape2 [OF shape3_nth [OF assms(1) that] assms(2)] by simp
  then show "shape2 B C (reduce_mean_axis1 t)" and "shape2 B C (reduce_sum_axis1 t)"
    using assms
    by (auto intro!: shape2I simp: reduce_mean_axis1_def reduce_sum_axis1_def shape3_length)
qed

lemma broadcast_mul_nth:
  assumes "shape3 B E C t" and "shape2 B E ws" and "b < B" and "e < E"
  shows "broadcast_mul (tf_expand_dims_last ws) t ! b ! e = map ((*) (ws ! b ! e)) (t ! b ! e)"
proof -
  have "length (t ! b) = E" using assms shape3_nth shape2_length by blast
  moreover have "length (ws ! b) = E" using assms shape2_nth by blast
  ultimately show ?thesis
    using assms
    by (simp add: broadcast_mul_def tf_expand_dims_last_def shape3_length shape2_length)
qed

lemma broadcast_mul_shape:
  assumes "shape3 B E C t" and "shape2 B E ws"
  shows "shape3 B E C (broadcast_mul (tf_expand_dims_last ws) t)"
proof (rule shape3I)
  show "length (broadcast_mul (tf_expand_dims_last ws) t) = B"
    using assms by (simp add: broadcast_mul_def tf_expand_dims_last_def shape3_length shape2_length)
next
  fix b assume b: "b < B"
  have lt: "length (t ! b) = E" using assms b shape3_nth shape2_length by blast
  have lw: "length (ws ! b) = E" using assms b shape2_nth by blast
  show "shape2 E C (broadcast_mul (tf_expand_dims_last ws) t ! b)"
  proof (rule shape2I)
    show "length (broadcast_mul (tf_expand_dims_last ws) t ! b) = E"
      using assms b lt lw
      by (simp add: broadcast_mul_def tf_expand_dims_last_def shape3_length shape2_length)
  next
    fix e assume e: "e < E"
    have "length (t ! b ! e) = C"
      using assms b e shape3_nth shape2_nth by blast
    then show "length (broadcast_mul (tf_expand_dims_last ws) t ! b ! e) = C"
      by (simp add: broadcast_mul_nth [OF assms b e])
  qed
qed

lemma softmax_shape:
  assumes "shape3 B E C t"
  shows "shape3 B E C (tf_nn_softmax t)"
  using assms
  by (auto simp: shape3_def shape2_def tf_nn_softmax_def softmax_vec_def)

lemma softmax_nth:
  assumes "shape3 B E C t" and "b < B" and "e < E"
  shows "tf_nn_softmax t ! b ! e = softmax_vec (t ! b ! e)"
proof -
  have "length (t ! b) = E" using assms shape3_nth shape2_length by blast
  then show ?thesis using assms by (simp add: tf_nn_softmax_def shape3_length)
qed

lemma well_shapedD:
  assumes "well_shaped B E C logits ws labels"
  shows "0 < B" "0 < E" "0 < C" "shape3 B E C logits" "shape2 B E ws" "length labels = B"
  using assms by (simp_all add: well_shaped_def)

subsection \<open>The four combined quantities\<close>

text \<open>
  Claim C2, amended. On logits of shape \<open>[B, E, C]\<close> and routing weights of shape
  \<open>[B, E]\<close>, \<open>unweighted_logits\<close> and \<open>unweighted_probs\<close> are the arithmetic means over the
  experts of the logits and of the softmax probabilities; \<open>weighted_logits\<close> is the sum
  over the experts of routing weight times logit divided by the number of experts;
  \<open>weighted_probs\<close> is the sum over the experts of routing weight times probability,
  which is the weighted mean when the routing weights of the example sum to 1.
\<close>

theorem process_3d_logits_combinations:
  assumes "well_shaped B E C logits routing_weights labels" and "b < B" and "c < C"
  shows "unweighted_logits (process_3d_logits fl logits routing_weights labels) ! b ! c =
           arithmetic_mean E (\<lambda>e. logits ! b ! e ! c) \<and>
         unweighted_probs (process_3d_logits fl logits routing_weights labels) ! b ! c =
           arithmetic_mean E (\<lambda>e. softmax_vec (logits ! b ! e) ! c) \<and>
         weighted_logits (process_3d_logits fl logits routing_weights labels) ! b ! c =
           (\<Sum>e<E. routing_weights ! b ! e * logits ! b ! e ! c) / real E \<and>
         weighted_probs (process_3d_logits fl logits routing_weights labels) ! b ! c =
           (\<Sum>e<E. routing_weights ! b ! e * softmax_vec (logits ! b ! e) ! c) \<and>
         ((\<Sum>e<E. routing_weights ! b ! e) = 1 \<longrightarrow>
            weighted_probs (process_3d_logits fl logits routing_weights labels) ! b ! c =
              weighted_mean E (\<lambda>e. routing_weights ! b ! e)
                (\<lambda>e. softmax_vec (logits ! b ! e) ! c))"
proof -
  note ws = well_shapedD [OF assms(1)]
  have lc: "length (logits ! b ! e) = C" if "e < E" for e
    using ws(4) assms(2) that shape3_nth shape2_nth by blast
  have sm: "shape3 B E C (tf_nn_softmax logits)" using ws(4) by (rule softmax_shape)
  have lsm: "length (softmax_vec (logits ! b ! e)) = C" if "e < E" for e
    using lc [OF that] by (simp add: softmax_vec_def)
  have u1: "unweighted_logits (process_3d_logits fl logits routing_weights labels) ! b ! c =
           arithmetic_mean E (\<lambda>e. logits ! b ! e ! c)"
    by (simp add: process_3d_logits_def Let_def arithmetic_mean_def
        reduce_mean_axis1_nth [OF ws(4) ws(2) assms(2,3)])
  have u2: "unweighted_probs (process_3d_logits fl logits routing_weights labels) ! b ! c =
           arithmetic_mean E (\<lambda>e. softmax_vec (logits ! b ! e) ! c)"
    using softmax_nth [OF ws(4) assms(2)]
    by (simp add: process_3d_logits_def Let_def arithmetic_mean_def
        reduce_mean_axis1_nth [OF sm ws(2) assms(2,3)])
  have w1: "weighted_logits (process_3d_logits fl logits routing_weights labels) ! b ! c =
           (\<Sum>e<E. routing_weights ! b ! e * logits ! b ! e ! c) / real E"
    using broadcast_mul_nth [OF ws(4) ws(5) assms(2)] lc assms(3)
    by (simp add: process_3d_logits_def Let_def
        reduce_mean_axis1_nth [OF broadcast_mul_shape [OF ws(4) ws(5)] ws(2) assms(2,3)])
  have w2: "weighted_probs (process_3d_logits fl logits routing_weights labels) ! b ! c =
           (\<Sum>e<E. routing_weights ! b ! e * softmax_vec (logits ! b ! e) ! c)"
    using broadcast_mul_nth [OF sm ws(5) assms(2)] softmax_nth [OF ws(4) assms(2)] lsm assms(3)
    by (simp add: process_3d_logits_def Let_def
        reduce_sum_axis1_nth [OF broadcast_mul_shape [OF sm ws(5)] ws(2) assms(2,3)])
  show ?thesis
    using u1 u2 w1 w2 by (simp add: weighted_mean_def)
qed

text \<open>
  Claim C2, as stated, fails. With routing weights \<open>1/2, 1/2\<close> and logits \<open>1\<close> and \<open>3\<close> for
  class 0, \<open>weighted_logits\<close> is 1 and the weighted mean is 2; with routing weights
  \<open>1, 1\<close> and equal logits, \<open>weighted_probs\<close> is 1 and the weighted mean is \<open>1/2\<close>.
\<close>

theorem process_3d_logits_weighted_counterexample:
  "weighted_logits (process_3d_logits two_experts [[[1, 0], [3, 0]]] [[1/2, 1/2]] [0]) ! 0 ! 0 \<noteq>
     weighted_mean 2 (\<lambda>e. [[1/2, 1/2]] ! 0 ! e) (\<lambda>e. [[[1, 0], [3, 0]]] ! 0 ! e ! 0) \<and>
   weighted_probs (process_3d_logits two_experts [[[0, 0], [0, 0]]] [[1, 1]] [0]) ! 0 ! 0 \<noteq>
     weighted_mean 2 (\<lambda>e. [[1, 1]] ! 0 ! e) (\<lambda>e. softmax_vec ([[[0, 0], [0, 0]]] ! 0 ! e) ! 0)"
  by (simp add: process_3d_logits_def Let_def reduce_mean_axis1_def reduce_sum_axis1_def
      broadcast_mul_def tf_expand_dims_last_def tf_nn_softmax_def softmax_vec_def
      transpose.simps weighted_mean_def numeral_2_eq_2)

lemma example_well_shaped: "well_shaped 1 2 2 [[[1, 0], [3, 0]]] [[1/2, 1/2]] [0]"
  by (simp add: well_shaped_def shape3_def shape2_def)

theorem process_3d_logits_combinations_witness:
  "well_shaped 1 2 2 [[[1, 0], [3, 0]]] [[1/2, 1/2]] [0] \<and>
   unweighted_logits (process_3d_logits two_experts [[[1, 0], [3, 0]]] [[1/2, 1/2]] [0]) ! 0 ! 0 = 2 \<and>
   weighted_logits (process_3d_logits two_experts [[[1, 0], [3, 0]]] [[1/2, 1/2]] [0]) ! 0 ! 0 = 1"
  using process_3d_logits_combinations [OF example_well_shaped, of 0 0 two_experts]
    example_well_shaped
  by (simp add: arithmetic_mean_def numeral_2_eq_2)

subsection \<open>The Gibbs cross-entropies\<close>

lemma sum_list_concat_real: "sum_list (concat (m :: real list list)) = sum_list (map sum_list m)"
  by (induction m) simp_all

lemma sum_list_map_nth: "sum_list (map f xs) = (\<Sum>i<length xs. (f (xs ! i) :: real))"
proof -
  have "sum_list (map f xs) = (\<Sum>i<length (map f xs). map f xs ! i)"
    by (rule sum_list_nth)
  then show ?thesis by simp
qed

lemma sum_concat_shape2:
  assumes "shape2 B E (m :: mat)"
  shows "sum_list (concat m) = (\<Sum>b<B. \<Sum>e<E. m ! b ! e)"
proof -
  have "sum_list (concat m) = (\<Sum>b<length m. sum_list (m ! b))"
    by (simp add: sum_list_concat_real sum_list_map_nth)
  also have "\<dots> = (\<Sum>b<B. sum_list (m ! b))"
    using assms by (simp add: shape2_length)
  also have "\<dots> = (\<Sum>b<B. \<Sum>e<E. m ! b ! e)"
    using assms by (intro sum.cong refl) (simp add: sum_list_nth shape2_nth)
  finally show ?thesis .
qed

lemma length_concat_shape2:
  assumes "shape2 B E m"
  shows "length (concat m) = B * E"
proof -
  have "map length m = replicate B E"
    using assms by (auto simp: shape2_def intro: replicate_eqI)
  then show ?thesis by (simp add: length_concat sum_list_replicate)
qed

lemma neg_log_likelihoods_nth:
  assumes "well_shaped B E C logits routing_weights labels" and "FLAGS_num_experts fl = int E"
    and "b < B" and "e < E"
  shows "neg_log_likelihoods (process_3d_logits fl logits routing_weights labels) ! b ! e =
           per_expert_cross_entropy logits labels b e"
proof -
  note ws = well_shapedD [OF assms(1)]
  have "length (logits ! b) = E" using ws(4) assms(3) shape3_nth shape2_length by blast
  then show ?thesis
    using assms ws
    by (simp add: process_3d_logits_def Let_def sparse_categorical_crossentropy_logits_2d_def
        per_expert_cross_entropy_def shape3_length)
qed

lemma neg_log_likelihoods_shape:
  assumes "well_shaped B E C logits routing_weights labels" and "FLAGS_num_experts fl = int E"
  shows "shape2 B E (neg_log_likelihoods (process_3d_logits fl logits routing_weights labels))"
proof (rule shape2I)
  note ws = well_shapedD [OF assms(1)]
  show "length (neg_log_likelihoods (process_3d_logits fl logits routing_weights labels)) = B"
    using ws assms(2)
    by (simp add: process_3d_logits_def Let_def sparse_categorical_crossentropy_logits_2d_def
        shape3_length)
  fix b assume b: "b < B"
  have "length (logits ! b) = E" using ws(4) b shape3_nth shape2_length by blast
  then show "length (neg_log_likelihoods
      (process_3d_logits fl logits routing_weights labels) ! b) = E"
    using ws b assms(2)
    by (simp add: process_3d_logits_def Let_def sparse_categorical_crossentropy_logits_2d_def
        shape3_length)
qed

text \<open>
  Claim C4. On inputs of the stated shapes, with \<open>FLAGS.num_experts\<close> the number of
  experts of the logits, \<open>unweighted_gibbs_ce\<close> is the mean over batch and experts of the
  per-expert cross-entropy against the label, and \<open>weighted_gibbs_ce\<close> is the mean over
  the batch of the sum over experts of routing weight times that cross-entropy.
\<close>

theorem gibbs_cross_entropies:
  assumes "well_shaped B E C logits routing_weights labels" and "FLAGS_num_experts fl = int E"
  shows "unweighted_gibbs_ce (process_3d_logits fl logits routing_weights labels) =
           (\<Sum>b<B. \<Sum>e<E. per_expert_cross_entropy logits labels b e) / real (B * E) \<and>
         weighted_gibbs_ce (process_3d_logits fl logits routing_weights labels) =
           (\<Sum>b<B. \<Sum>e<E. routing_weights ! b ! e * per_expert_cross_entropy logits labels b e)
             / real B"
proof -
  note ws = well_shapedD [OF assms(1)]
  let ?r = "process_3d_logits fl logits routing_weights labels"
  let ?nll = "neg_log_likelihoods ?r"
  have sh: "shape2 B E ?nll" using assms by (rule neg_log_likelihoods_shape)
  have u0: "unweighted_gibbs_ce ?r = reduce_mean_2d ?nll"
    by (simp add: process_3d_logits_def Let_def)
  have "sum_list (concat ?nll) = (\<Sum>b<B. \<Sum>e<E. ?nll ! b ! e)"
    using sh by (rule sum_concat_shape2)
  also have "\<dots> = (\<Sum>b<B. \<Sum>e<E. per_expert_cross_entropy logits labels b e)"
    by (intro sum.cong refl) (simp add: neg_log_likelihoods_nth [OF assms])
  finally have u: "unweighted_gibbs_ce ?r =
      (\<Sum>b<B. \<Sum>e<E. per_expert_cross_entropy logits labels b e) / real (B * E)"
    unfolding u0 reduce_mean_2d_def by (simp add: length_concat_shape2 [OF sh])
  have w0: "weighted_gibbs_ce ?r =
      reduce_mean_1d (reduce_sum_2d_axis1 (mul_2d routing_weights ?nll))"
    by (simp add: process_3d_logits_def Let_def)
  have row: "reduce_sum_2d_axis1 (mul_2d routing_weights ?nll) ! b =
      (\<Sum>e<E. routing_weights ! b ! e * per_expert_cross_entropy logits labels b e)"
    if b: "b < B" for b
  proof -
    have l1: "length (routing_weights ! b) = E" using ws(5) b shape2_nth by blast
    have l2: "length (?nll ! b) = E" using sh b shape2_nth by blast
    have "reduce_sum_2d_axis1 (mul_2d routing_weights ?nll) ! b =
        sum_list (map2 (*) (routing_weights ! b) (?nll ! b))"
      using b ws(5) sh by (simp add: reduce_sum_2d_axis1_def mul_2d_def shape2_length)
    also have "\<dots> = (\<Sum>e<E. routing_weights ! b ! e * ?nll ! b ! e)"
      using l1 l2 by (simp add: sum_list_nth)
    also have "\<dots> = (\<Sum>e<E. routing_weights ! b ! e *
        per_expert_cross_entropy logits labels b e)"
      by (intro sum.cong refl) (simp add: neg_log_likelihoods_nth [OF assms b])
    finally show ?thesis .
  qed
  have len: "length (reduce_sum_2d_axis1 (mul_2d routing_weights ?nll)) = B"
    using ws(5) sh by (simp add: reduce_sum_2d_axis1_def mul_2d_def shape2_length)
  have "sum_list (reduce_sum_2d_axis1 (mul_2d routing_weights ?nll)) =
      (\<Sum>b<B. reduce_sum_2d_axis1 (mul_2d routing_weights ?nll) ! b)"
    using len by (simp add: sum_list_nth)
  also have "\<dots> = (\<Sum>b<B. \<Sum>e<E. routing_weights ! b ! e *
        per_expert_cross_entropy logits labels b e)"
    by (intro sum.cong refl) (simp add: row)
  finally have w: "weighted_gibbs_ce ?r =
      (\<Sum>b<B. \<Sum>e<E. routing_weights ! b ! e * per_expert_cross_entropy logits labels b e)
        / real B"
    unfolding w0 reduce_mean_1d_def by (simp add: len)
  show ?thesis using u w by simp
qed

theorem gibbs_cross_entropies_witness:
  "well_shaped 1 2 2 [[[1, 0], [3, 0]]] [[1/2, 1/2]] [0] \<and>
   unweighted_gibbs_ce (process_3d_logits two_experts [[[1, 0], [3, 0]]] [[1/2, 1/2]] [0]) =
     (per_expert_cross_entropy [[[1, 0], [3, 0]]] [0] 0 0 +
      per_expert_cross_entropy [[[1, 0], [3, 0]]] [0] 0 1) / 2 \<and>
   weighted_gibbs_ce (process_3d_logits two_experts [[[1, 0], [3, 0]]] [[1/2, 1/2]] [0]) =
     per_expert_cross_entropy [[[1, 0], [3, 0]]] [0] 0 0 / 2 +
     per_expert_cross_entropy [[[1, 0], [3, 0]]] [0] 0 1 / 2"
  using gibbs_cross_entropies [OF example_well_shaped, of two_experts] example_well_shaped
  by (simp add: numeral_2_eq_2 two_experts_def default_flags_def)

section \<open>Properties of \<open>_process_3d_logits_train\<close>\<close>

text \<open>
  Claim C1 fails on the code for two of the six values. With \<open>loss\<close> \<open>poe\<close> or
  \<open>unweighted_poe\<close> the function raises \<open>AttributeError\<close> at \<open>tf.softmax\<close> and returns no
  pair.
\<close>

theorem process_3d_logits_train_poe_raises:
  "process_3d_logits_train tensorflow2 (two_experts\<lparr>FLAGS_loss := Poe\<rparr>)
     [[[1, 0], [3, 0]]] [[1/2, 1/2]] [0] = Inl (AttributeError ''softmax'') \<and>
   process_3d_logits_train tensorflow2 (two_experts\<lparr>FLAGS_loss := Unweighted_poe\<rparr>)
     [[[1, 0], [3, 0]]] [[1/2, 1/2]] [0] = Inl (AttributeError ''softmax'')"
  by (simp add: process_3d_logits_train_def getattr_softmax_def tensorflow2_def)

text \<open>
  The same on every input; the four other values return a pair on every input; and with
  \<open>tf.nn.softmax\<close> under the name, \<open>poe\<close> returns the softmax of the weighted logits with
  their cross-entropy.
\<close>

lemma process_3d_logits_train_poe_no_softmax:
  assumes "tf_softmax tf = None" and "FLAGS_loss fl = Poe \<or> FLAGS_loss fl = Unweighted_poe"
  shows "process_3d_logits_train tf fl logits routing_weights labels =
           Inl (AttributeError ''softmax'')"
  using assms by (auto simp: process_3d_logits_train_def getattr_softmax_def Let_def)

lemma process_3d_logits_train_other_losses:
  assumes "FLAGS_loss fl \<noteq> Poe" and "FLAGS_loss fl \<noteq> Unweighted_poe"
  shows "\<exists>probs negative_log_likelihood.
           process_3d_logits_train tf fl logits routing_weights labels =
             Inr (probs, negative_log_likelihood)"
  using assms by (cases "FLAGS_loss fl") (simp_all add: process_3d_logits_train_def Let_def)

lemma process_3d_logits_train_poe_with_softmax:
  assumes "tf_softmax tf = Some tf_nn_softmax_2d" and "FLAGS_loss fl = Poe"
  shows "process_3d_logits_train tf fl logits routing_weights labels =
           Inr (tf_nn_softmax_2d
                  (weighted_logits (process_3d_logits fl logits routing_weights labels)),
                reduce_mean_1d (sparse_categorical_crossentropy_logits labels
                  (weighted_logits (process_3d_logits fl logits routing_weights labels))))"
  using assms by (simp add: process_3d_logits_train_def getattr_softmax_def Let_def)

end
